theory Spec2Isabelle
  imports Main "HOL-Library.Word" "HOL-Library.Code_Target_Nat"
begin

section \<open>Go strings and the library functions the link encoder calls\<close>

text \<open>
  A Go \<^verbatim>\<open>string\<close> and a \<^verbatim>\<open>[]byte\<close> are byte sequences; both are modelled as
  \<^typ>\<open>string\<close>, whose characters are the 256 byte values. \<^verbatim>\<open>len(s)\<close> is
  \<^term>\<open>length s\<close>. A Go slice of strings is a \<^typ>\<open>string list option\<close>, where
  \<^term>\<open>None\<close> is the nil slice.
\<close>

type_synonym bytes = string

subsection \<open>strings.TrimSpace\<close>

text \<open>
  \<^verbatim>\<open>strings.TrimSpace\<close> removes every leading and every trailing white-space rune as
  defined by \<^verbatim>\<open>unicode.IsSpace\<close>. The runes are listed in their UTF-8 encoding: a string
  starts (ends) with a white-space rune exactly when it starts (ends) with one of these
  byte sequences.
\<close>

definition spaceRunes :: "string list" where
  "spaceRunes =
     [[CHR 0x09], [CHR 0x0A], [CHR 0x0B], [CHR 0x0C], [CHR 0x0D], [CHR 0x20],
      [CHR 0xC2, CHR 0x85], [CHR 0xC2, CHR 0xA0],
      [CHR 0xE1, CHR 0x9A, CHR 0x80],
      [CHR 0xE2, CHR 0x80, CHR 0x80], [CHR 0xE2, CHR 0x80, CHR 0x81],
      [CHR 0xE2, CHR 0x80, CHR 0x82], [CHR 0xE2, CHR 0x80, CHR 0x83],
      [CHR 0xE2, CHR 0x80, CHR 0x84], [CHR 0xE2, CHR 0x80, CHR 0x85],
      [CHR 0xE2, CHR 0x80, CHR 0x86], [CHR 0xE2, CHR 0x80, CHR 0x87],
      [CHR 0xE2, CHR 0x80, CHR 0x88], [CHR 0xE2, CHR 0x80, CHR 0x89],
      [CHR 0xE2, CHR 0x80, CHR 0x8A],
      [CHR 0xE2, CHR 0x80, CHR 0xA8], [CHR 0xE2, CHR 0x80, CHR 0xA9],
      [CHR 0xE2, CHR 0x80, CHR 0xAF],
      [CHR 0xE2, CHR 0x81, CHR 0x9F],
      [CHR 0xE3, CHR 0x80, CHR 0x80]]"

definition startsWith :: "string \<Rightarrow> string \<Rightarrow> bool" where
  "startsWith s p = (p \<noteq> [] \<and> take (length p) s = p)"

function stripLeading :: "string list \<Rightarrow> string \<Rightarrow> string" where
  "stripLeading pats s =
     (case find (startsWith s) pats of
        None \<Rightarrow> s
      | Some p \<Rightarrow> stripLeading pats (drop (length p) s))"
  by pat_completeness auto
termination
proof (relation "measure (\<lambda>(pats, s). length s)")
  show "wf (measure (\<lambda>(pats, s). length s))" by simp
next
  fix pats :: "string list" and s p :: string
  assume "find (startsWith s) pats = Some p"
  then have "startsWith s p" by (auto simp: find_Some_iff)
  then have "p \<noteq> []" and "take (length p) s = p" by (auto simp: startsWith_def)
  then have "s \<noteq> []" by auto
  with \<open>p \<noteq> []\<close> show "((pats, drop (length p) s), (pats, s)) \<in> measure (\<lambda>(pats, s). length s)"
    by simp
qed

declare stripLeading.simps [simp del]

definition trimLeft :: "string \<Rightarrow> string" where
  "trimLeft s = stripLeading spaceRunes s"

definition trimRight :: "string \<Rightarrow> string" where
  "trimRight s = rev (stripLeading (map rev spaceRunes) (rev s))"

text \<open>The six ASCII white-space bytes (the \<^verbatim>\<open>asciiSpace\<close> table of package strings).\<close>

definition asciiSpace :: "char \<Rightarrow> bool" where
  "asciiSpace c =
     (c = CHR 0x09 \<or> c = CHR 0x0A \<or> c = CHR 0x0B \<or> c = CHR 0x0C \<or> c = CHR 0x0D \<or> c = CHR 0x20)"

definition TrimSpace :: "string \<Rightarrow> string" where
  "TrimSpace s = trimRight (trimLeft s)"

subsection \<open>strconv.Itoa and strconv.Atoi\<close>

function digitsOf :: "nat \<Rightarrow> string" where
  "digitsOf n = (if n < 10 then [char_of (48 + n)] else digitsOf (n div 10) @ [char_of (48 + n mod 10)])"
  by pat_completeness auto
termination
  by (relation "measure id") auto

declare digitsOf.simps [simp del]

definition Itoa :: "int \<Rightarrow> string" where
  "Itoa i = (if i < 0 then CHR ''-'' # digitsOf (nat (- i)) else digitsOf (nat i))"

definition isDigit :: "char \<Rightarrow> bool" where
  "isDigit c = (48 \<le> (of_char c :: nat) \<and> (of_char c :: nat) \<le> 57)"

definition digitsValue :: "string \<Rightarrow> int" where
  "digitsValue ds = fold (\<lambda>c n. n * 10 + ((of_char c :: int) - 48)) ds 0"

text \<open>
  \<^verbatim>\<open>strconv.Atoi\<close>: an optional sign, then one or more decimal digits; the value must
  fit the platform's \<^verbatim>\<open>int\<close> (64 bits). Every failure is \<^term>\<open>None\<close>.
\<close>

definition Atoi :: "string \<Rightarrow> int option" where
  "Atoi s =
     (let neg = (s \<noteq> [] \<and> hd s = CHR ''-'');
          ds = (if s \<noteq> [] \<and> (hd s = CHR ''-'' \<or> hd s = CHR ''+'') then tl s else s)
      in if ds = [] \<or> \<not> list_all isDigit ds then None
         else let v = (if neg then - digitsValue ds else digitsValue ds)
              in if v < - (2 ^ 63) \<or> 2 ^ 63 - 1 < v then None else Some v)"

subsection \<open>net.SplitHostPort\<close>

datatype addrError =
  MissingPort | TooManyColons | MissingBracket | UnexpectedOpen | UnexpectedClose

fun indexByte :: "string \<Rightarrow> char \<Rightarrow> nat option" where
  "indexByte [] c = None"
| "indexByte (x # xs) c = (if x = c then Some 0 else map_option Suc (indexByte xs c))"

definition lastIndexByte :: "string \<Rightarrow> char \<Rightarrow> nat option" where
  "lastIndexByte s c =
     (case indexByte (rev s) c of None \<Rightarrow> None | Some k \<Rightarrow> Some (length s - 1 - k))"

definition SplitHostPort :: "string \<Rightarrow> addrError + (string \<times> string)" where
  "SplitHostPort hostport =
     (case lastIndexByte hostport (CHR '':'') of
        None \<Rightarrow> Inl MissingPort
      | Some i \<Rightarrow>
          if hd hostport = CHR ''['' then
            (case indexByte hostport (CHR '']'') of
               None \<Rightarrow> Inl MissingBracket
             | Some end \<Rightarrow>
                 if end + 1 = length hostport then Inl MissingPort
                 else if end + 1 = i then
                   (if indexByte (drop 1 hostport) (CHR ''['') \<noteq> None then Inl UnexpectedOpen
                    else if indexByte (drop (end + 1) hostport) (CHR '']'') \<noteq> None
                      then Inl UnexpectedClose
                    else Inr (take (end - 1) (drop 1 hostport), drop (i + 1) hostport))
                 else if hostport ! (end + 1) = CHR '':'' then Inl TooManyColons
                 else Inl MissingPort)
          else
            if indexByte (take i hostport) (CHR '':'') \<noteq> None then Inl TooManyColons
            else if indexByte hostport (CHR ''['') \<noteq> None then Inl UnexpectedOpen
            else if indexByte hostport (CHR '']'') \<noteq> None then Inl UnexpectedClose
            else Inr (take i hostport, drop (i + 1) hostport))"

subsection \<open>strings.Split and strings.ReplaceAll on a single byte\<close>

fun Split :: "string \<Rightarrow> char \<Rightarrow> string list" where
  "Split [] sep = [[]]"
| "Split (c # cs) sep =
     (if c = sep then [] # Split cs sep
      else (case Split cs sep of [] \<Rightarrow> [[c]] | p # ps \<Rightarrow> (c # p) # ps))"

definition removeAll_byte :: "char \<Rightarrow> string \<Rightarrow> string" where
  "removeAll_byte c s = filter (\<lambda>x. x \<noteq> c) s"

section \<open>The secure link encoder's helpers\<close>

definition parseEndpointHostPort :: "string \<Rightarrow> string \<times> int" where
  "parseEndpointHostPort endpoint0 =
     (let host = ''127.0.0.1''; port = 51820; endpoint = TrimSpace endpoint0
      in if endpoint = [] then (host, port)
         else (case SplitHostPort endpoint of
                 Inl err \<Rightarrow> (endpoint, port)
               | Inr (h0, p) \<Rightarrow>
                   (let h = TrimSpace h0;
                        host' = (if h \<noteq> [] then h else host);
                        port' = (case Atoi p of Some pi \<Rightarrow> pi | None \<Rightarrow> port)
                    in (host', port'))))"

text \<open>The loop of \<^verbatim>\<open>splitCsvOrDefault\<close>: \<open>out\<close> grows by \<^verbatim>\<open>append\<close>.\<close>

fun collectItems :: "string list \<Rightarrow> string list \<Rightarrow> string list" where
  "collectItems [] out = out"
| "collectItems (item0 # items) out =
     (let item = TrimSpace item0
      in if item = [] then collectItems items out
         else collectItems items (out @ [item]))"

definition splitCsvOrDefault :: "string \<Rightarrow> string \<Rightarrow> string list option" where
  "splitCsvOrDefault val fallback =
     (let raw0 = TrimSpace val;
          raw1 = (if raw0 = [] then fallback else raw0);
          raw = removeAll_byte (CHR '' '') raw1
      in if raw = [] then None
         else Some (collectItems (Split raw (CHR '','')) []))"

definition sliceItems :: "string list option \<Rightarrow> string list" where
  "sliceItems sl = (case sl of None \<Rightarrow> [] | Some xs \<Rightarrow> xs)"

definition pickDnsServers :: "string \<Rightarrow> string \<times> string" where
  "pickDnsServers dns =
     (let parts = sliceItems (splitCsvOrDefault dns ''1.1.1.1,1.0.0.1'');
          dns1 = (if length parts > 0 then parts ! 0 else ''1.1.1.1'');
          dns2 = (if length parts > 1 then parts ! 1 else ''1.0.0.1'')
      in (dns1, dns2))"


subsection \<open>The obfuscation parameters and their string forms\<close>

text \<open>
  \<^verbatim>\<open>domain.AdvancedSecurity\<close> and \<^verbatim>\<open>config.ProvisioningInterfaceAdvancedSecurity\<close> have the
  same fields with the same types; one record stands for both. A \<^verbatim>\<open>*string\<close> is a
  \<^typ>\<open>string option\<close>, \<^term>\<open>None\<close> for nil.
\<close>

record AdvancedSecurity =
  JunkPacketCount :: "16 word"
  JunkPacketMinSize :: "16 word"
  JunkPacketMaxSize :: "16 word"
  InitPacketJunkSize :: "16 word"
  ResponsePacketJunkSize :: "16 word"
  CookieReplyPacketJunkSize :: "16 word"
  TransportPacketJunkSize :: "16 word"
  InitPacketMagicHeader :: string
  ResponsePacketMagicHeader :: string
  UnderloadPacketMagicHeader :: string
  TransportPacketMagicHeader :: string
  FirstSpecialJunkPacket :: "string option"
  SecondSpecialJunkPacket :: "string option"
  ThirdSpecialJunkPacket :: "string option"
  FourthSpecialJunkPacket :: "string option"
  FifthSpecialJunkPacket :: "string option"

record amneziaAwgBase =
  base_H1 :: string
  base_H2 :: string
  base_H3 :: string
  base_H4 :: string
  base_Jc :: string
  base_Jmax :: string
  base_Jmin :: string
  base_S1 :: string
  base_S2 :: string

record amneziaAwgExtended =
  ext_S3 :: string
  ext_S4 :: string
  ext_I1 :: string
  ext_I2 :: string
  ext_I3 :: string
  ext_I4 :: string
  ext_I5 :: string

definition u16ToString :: "16 word \<Rightarrow> string" where
  "u16ToString v = Itoa (uint v)"

definition u16ToStringOptional :: "16 word \<Rightarrow> string" where
  "u16ToStringOptional v = (if v = 0 then [] else Itoa (uint v))"

definition amneziaAwgBaseParams :: "AdvancedSecurity option \<Rightarrow> amneziaAwgBase" where
  "amneziaAwgBaseParams adv0 =
     (case adv0 of
        None \<Rightarrow> \<lparr>base_H1 = [], base_H2 = [], base_H3 = [], base_H4 = [], base_Jc = [],
                 base_Jmax = [], base_Jmin = [], base_S1 = [], base_S2 = []\<rparr>
      | Some adv \<Rightarrow>
          \<lparr>base_H1 = TrimSpace (InitPacketMagicHeader adv),
           base_H2 = TrimSpace (ResponsePacketMagicHeader adv),
           base_H3 = TrimSpace (UnderloadPacketMagicHeader adv),
           base_H4 = TrimSpace (TransportPacketMagicHeader adv),
           base_Jc = u16ToString (JunkPacketCount adv),
           base_Jmax = u16ToString (JunkPacketMaxSize adv),
           base_Jmin = u16ToString (JunkPacketMinSize adv),
           base_S1 = u16ToString (InitPacketJunkSize adv),
           base_S2 = u16ToString (ResponsePacketJunkSize adv)\<rparr>)"

text \<open>A field of \<open>ext\<close> assigned under \<^verbatim>\<open>if p != nil\<close>; it stays \<^verbatim>\<open>""\<close> otherwise.\<close>

definition trimmedOrEmpty :: "string option \<Rightarrow> string" where
  "trimmedOrEmpty p = (case p of None \<Rightarrow> [] | Some s \<Rightarrow> TrimSpace s)"

definition amneziaAwgExtendedParams :: "AdvancedSecurity option \<Rightarrow> amneziaAwgExtended" where
  "amneziaAwgExtendedParams adv0 =
     (case adv0 of
        None \<Rightarrow> \<lparr>ext_S3 = [], ext_S4 = [], ext_I1 = [], ext_I2 = [], ext_I3 = [],
                 ext_I4 = [], ext_I5 = []\<rparr>
      | Some adv \<Rightarrow>
          \<lparr>ext_S3 = u16ToStringOptional (CookieReplyPacketJunkSize adv),
           ext_S4 = u16ToStringOptional (TransportPacketJunkSize adv),
           ext_I1 = trimmedOrEmpty (FirstSpecialJunkPacket adv),
           ext_I2 = trimmedOrEmpty (SecondSpecialJunkPacket adv),
           ext_I3 = trimmedOrEmpty (ThirdSpecialJunkPacket adv),
           ext_I4 = trimmedOrEmpty (FourthSpecialJunkPacket adv),
           ext_I5 = trimmedOrEmpty (FifthSpecialJunkPacket adv)\<rparr>)"

subsection \<open>The binary frame: a length header and a zlib stream\<close>

text \<open>\<^verbatim>\<open>binary.BigEndian.PutUint32\<close> of a value already reduced to 32 bits.\<close>

definition PutUint32 :: "nat \<Rightarrow> bytes" where
  "PutUint32 v = [char_of (v div 2 ^ 24), char_of (v div 2 ^ 16), char_of (v div 2 ^ 8), char_of v]"

definition adler32 :: "bytes \<Rightarrow> nat" where
  "adler32 d =
     (case fold (\<lambda>c (a, b). let a' = (a + of_char c) mod 65521 in (a', (b + a') mod 65521)) d (1, 0)
      of (a, b) \<Rightarrow> b * 65536 + a)"

text \<open>
  The two header bytes \<^verbatim>\<open>zlib.Writer\<close> emits: \<open>0x78\<close> (deflate, 32K window), then
  the level class in the top two bits and the check bits that make the pair a multiple
  of 31. No preset dictionary is used.
\<close>

definition zlibLevelClass :: "int \<Rightarrow> nat" where
  "zlibLevelClass level =
     (if level = -2 \<or> level = 0 \<or> level = 1 then 0
      else if level = 2 \<or> level = 3 \<or> level = 4 \<or> level = 5 then 1
      else if level = 6 \<or> level = -1 then 2
      else 3)"

definition zlibHeader :: "int \<Rightarrow> bytes" where
  "zlibHeader level =
     (let b1 = zlibLevelClass level * 64
      in [char_of (0x78 :: nat), char_of (b1 + (31 - (0x78 * 256 + b1) mod 31))])"

datatype linkError =
  NilPeer | MissingAdvancedSecurity | ZlibWriterLevel int

text \<open>
  \<^verbatim>\<open>qtQCompress\<close>. The deflate compressor of \<^verbatim>\<open>compress/flate\<close> is the parameter
  \<open>deflate\<close>: \<open>deflate level data\<close> is the block sequence the compressor has written
  when the writer is closed. \<^verbatim>\<open>zlib.NewWriterLevel\<close> refuses a level outside
  \<open>-2..9\<close>; writes into a \<^verbatim>\<open>bytes.Buffer\<close> return no error, so the two later error
  branches are never taken.
\<close>

definition qtQCompress :: "(int \<Rightarrow> bytes \<Rightarrow> bytes) \<Rightarrow> bytes \<Rightarrow> int \<Rightarrow> linkError + bytes" where
  "qtQCompress deflate data level =
     (let sizeHdr = PutUint32 (length data mod 2 ^ 32)
      in if level < -2 \<or> 9 < level then Inl (ZlibWriterLevel level)
         else Inr (sizeHdr @ zlibHeader level @ deflate level data @ PutUint32 (adler32 data)))"

text \<open>
  \<^verbatim>\<open>zlib.NewReader\<close> followed by \<^verbatim>\<open>io.ReadAll\<close>, as the repository's test reads the
  frame back. \<open>inflate\<close> decodes one deflate stream from the front of its input and
  returns the data with the bytes that follow the stream.
\<close>

definition zlibRead :: "(bytes \<Rightarrow> (bytes \<times> bytes) option) \<Rightarrow> bytes \<Rightarrow> bytes option" where
  "zlibRead inflate s =
     (if length s < 2 then None
      else let cmf = (of_char (s ! 0) :: nat); flg = (of_char (s ! 1) :: nat)
           in if cmf mod 16 \<noteq> 8 \<or> 7 < cmf div 16 \<or> (cmf * 256 + flg) mod 31 \<noteq> 0
                 \<or> (flg div 32) mod 2 = 1 then None
              else (case inflate (drop 2 s) of
                      None \<Rightarrow> None
                    | Some (d, rest) \<Rightarrow>
                        if length rest < 4 then None
                        else if take 4 rest = PutUint32 (adler32 d) then Some d else None))"

text \<open>
  A deflate compressor that only stores (RFC 1951 section 3.2.4): the data in stored
  blocks of at most 65535 bytes, closed by an empty final block. This is what
  \<^verbatim>\<open>compress/flate\<close> writes at level 0; \<open>flateStore\<close> does not look at its level.
\<close>

definition storedHeader :: "nat \<Rightarrow> bool \<Rightarrow> bytes" where
  "storedHeader n final =
     [char_of (if final then 1 else 0 :: nat), char_of n, char_of (n div 256),
      char_of (65535 - n), char_of ((65535 - n) div 256)]"

function storeBlocks :: "bytes \<Rightarrow> bytes" where
  "storeBlocks d =
     (if d = [] then []
      else storedHeader (min (length d) 65535) False @ take 65535 d @ storeBlocks (drop 65535 d))"
  by pat_completeness auto
termination
  by (relation "measure length") auto

declare storeBlocks.simps [simp del]

definition flateStore :: "int \<Rightarrow> bytes \<Rightarrow> bytes" where
  "flateStore level d = storeBlocks d @ storedHeader 0 True"

datatype flateError = CorruptInput | UnexpectedEOF | HuffmanBlock

text \<open>
  A raw deflate decoder for streams of stored blocks. The first byte of a block holds
  the final flag (bit 0) and the block type (bits 1-2); a stored block continues with
  \<open>LEN\<close> and its one's complement, little-endian. Blocks of the two Huffman types are
  reported as \<^term>\<open>HuffmanBlock\<close> and not decoded.
\<close>

function inflateStored :: "bytes \<Rightarrow> bytes \<Rightarrow> flateError + (bytes \<times> bytes)" where
  "inflateStored acc s =
     (case s of
        [] \<Rightarrow> Inl UnexpectedEOF
      | h # t \<Rightarrow>
          let btype = ((of_char h :: nat) div 2) mod 4 in
          if btype = 3 then Inl CorruptInput
          else if btype \<noteq> 0 then Inl HuffmanBlock
          else if length t < 4 then Inl UnexpectedEOF
          else let len = (of_char (t ! 0) :: nat) + 256 * of_char (t ! 1);
                   nlen = (of_char (t ! 2) :: nat) + 256 * of_char (t ! 3)
               in if nlen \<noteq> 65535 - len then Inl CorruptInput
                  else if length t - 4 < len then Inl UnexpectedEOF
                  else if (of_char h :: nat) mod 2 = 1
                    then Inr (acc @ take len (drop 4 t), drop (4 + len) t)
                  else inflateStored (acc @ take len (drop 4 t)) (drop (4 + len) t))"
  by pat_completeness auto
termination
  by (relation "measure (\<lambda>(acc, s). length s)") auto

declare inflateStored.simps [simp del]

definition inflateStoredOpt :: "bytes \<Rightarrow> (bytes \<times> bytes) option" where
  "inflateStoredOpt s = (case inflateStored [] s of Inl e \<Rightarrow> None | Inr r \<Rightarrow> Some r)"

subsection \<open>base64.RawURLEncoding\<close>

definition encodeURL :: string where
  "encodeURL = ''ABCDEFGHIJKLMNOPQRSTUVWXYZabcdefghijklmnopqrstuvwxyz0123456789-_''"

fun EncodeToString :: "bytes \<Rightarrow> string" where
  "EncodeToString (a # b # c # rest) =
     (let n = (of_char a :: nat) * 65536 + of_char b * 256 + of_char c
      in [encodeURL ! (n div 262144), encodeURL ! (n div 4096 mod 64),
          encodeURL ! (n div 64 mod 64), encodeURL ! (n mod 64)] @ EncodeToString rest)"
| "EncodeToString [a, b] =
     (let n = (of_char a :: nat) * 65536 + of_char b * 256
      in [encodeURL ! (n div 262144), encodeURL ! (n div 4096 mod 64),
          encodeURL ! (n div 64 mod 64)])"
| "EncodeToString [a] =
     (let n = (of_char a :: nat) * 65536
      in [encodeURL ! (n div 262144), encodeURL ! (n div 4096 mod 64)])"
| "EncodeToString [] = []"


subsection \<open>encoding/json on the envelope's struct types\<close>

datatype json =
  JNull | JString string | JNumber int | JArray "json list" | JObject "(string \<times> json) list"

fun joinWith :: "string \<Rightarrow> string list \<Rightarrow> string" where
  "joinWith sep [] = []"
| "joinWith sep [x] = x"
| "joinWith sep (x # y # zs) = x @ sep @ joinWith sep (y # zs)"

text \<open>
  The compact text of a JSON value. \<open>quote\<close> is \<^verbatim>\<open>encoding/json\<close>'s string encoder
  (the quotes and its escapes), a parameter.
\<close>

fun jsonText :: "(string \<Rightarrow> string) \<Rightarrow> json \<Rightarrow> string"
  and memberText :: "(string \<Rightarrow> string) \<Rightarrow> string \<times> json \<Rightarrow> string" where
  "jsonText quote JNull = ''null''"
| "jsonText quote (JString s) = quote s"
| "jsonText quote (JNumber i) = Itoa i"
| "jsonText quote (JArray xs) = ''['' @ joinWith '','' (map (jsonText quote) xs) @ '']''"
| "jsonText quote (JObject kvs) = ''{'' @ joinWith '','' (map (memberText quote) kvs) @ ''}''"
| "memberText quote (k, v) = quote k @ '':'' @ jsonText quote v"

text \<open>A string field: always written, or skipped when empty under \<^verbatim>\<open>omitempty\<close>.\<close>

definition field :: "string \<Rightarrow> string \<Rightarrow> (string \<times> json) list" where
  "field key s = [(key, JString s)]"

definition omitempty :: "string \<Rightarrow> string \<Rightarrow> (string \<times> json) list" where
  "omitempty key s = (if s = [] then [] else [(key, JString s)])"

definition stringSlice :: "string list option \<Rightarrow> json" where
  "stringSlice sl = (case sl of None \<Rightarrow> JNull | Some xs \<Rightarrow> JArray (map JString xs))"

record amneziaAwgContainer =
  awg_H1 :: string
  awg_H2 :: string
  awg_H3 :: string
  awg_H4 :: string
  awg_Jc :: string
  awg_Jmax :: string
  awg_Jmin :: string
  awg_S1 :: string
  awg_S2 :: string
  awg_S3 :: string
  awg_S4 :: string
  awg_I1 :: string
  awg_I2 :: string
  awg_I3 :: string
  awg_I4 :: string
  awg_I5 :: string
  awg_LastConfig :: string
  awg_Port :: string
  awg_TransportProto :: string

record amneziaAwgLastConfig =
  lc_H1 :: string
  lc_H2 :: string
  lc_H3 :: string
  lc_H4 :: string
  lc_Jc :: string
  lc_Jmax :: string
  lc_Jmin :: string
  lc_S1 :: string
  lc_S2 :: string
  lc_S3 :: string
  lc_S4 :: string
  lc_I1 :: string
  lc_I2 :: string
  lc_I3 :: string
  lc_I4 :: string
  lc_I5 :: string
  lc_AllowedIPs :: "string list option"
  lc_ClientID :: string
  lc_ClientIP :: string
  lc_ClientPrivKey :: string
  lc_ClientPubKey :: string
  lc_Config :: string
  lc_HostName :: string
  lc_MTU :: string
  lc_PersistentKeepAlive :: string
  lc_Port :: int
  lc_PSKKey :: string
  lc_ServerPubKey :: string

record amneziaContainer =
  Awg :: amneziaAwgContainer
  Container :: string

record amneziaEnvelope =
  Containers :: "amneziaContainer list"
  DefaultContainer :: string
  Description :: string
  DNS1 :: string
  DNS2 :: string
  HostName :: string

text \<open>\<^verbatim>\<open>json.Marshal\<close> on each struct type: the members in field order, under the tags.\<close>

definition marshalAwgContainer :: "amneziaAwgContainer \<Rightarrow> json" where
  "marshalAwgContainer c =
     JObject (field ''H1'' (awg_H1 c) @ field ''H2'' (awg_H2 c) @ field ''H3'' (awg_H3 c)
       @ field ''H4'' (awg_H4 c) @ field ''Jc'' (awg_Jc c) @ field ''Jmax'' (awg_Jmax c)
       @ field ''Jmin'' (awg_Jmin c) @ field ''S1'' (awg_S1 c) @ field ''S2'' (awg_S2 c)
       @ omitempty ''S3'' (awg_S3 c) @ omitempty ''S4'' (awg_S4 c)
       @ omitempty ''I1'' (awg_I1 c) @ omitempty ''I2'' (awg_I2 c) @ omitempty ''I3'' (awg_I3 c)
       @ omitempty ''I4'' (awg_I4 c) @ omitempty ''I5'' (awg_I5 c)
       @ field ''last_config'' (awg_LastConfig c) @ field ''port'' (awg_Port c)
       @ field ''transport_proto'' (awg_TransportProto c))"

definition marshalLastConfig :: "amneziaAwgLastConfig \<Rightarrow> json" where
  "marshalLastConfig c =
     JObject (field ''H1'' (lc_H1 c) @ field ''H2'' (lc_H2 c) @ field ''H3'' (lc_H3 c)
       @ field ''H4'' (lc_H4 c) @ field ''Jc'' (lc_Jc c) @ field ''Jmax'' (lc_Jmax c)
       @ field ''Jmin'' (lc_Jmin c) @ field ''S1'' (lc_S1 c) @ field ''S2'' (lc_S2 c)
       @ omitempty ''S3'' (lc_S3 c) @ omitempty ''S4'' (lc_S4 c)
       @ omitempty ''I1'' (lc_I1 c) @ omitempty ''I2'' (lc_I2 c) @ omitempty ''I3'' (lc_I3 c)
       @ omitempty ''I4'' (lc_I4 c) @ omitempty ''I5'' (lc_I5 c)
       @ [(''allowed_ips'', stringSlice (lc_AllowedIPs c))]
       @ field ''clientId'' (lc_ClientID c) @ field ''client_ip'' (lc_ClientIP c)
       @ field ''client_priv_key'' (lc_ClientPrivKey c)
       @ field ''client_pub_key'' (lc_ClientPubKey c)
       @ field ''config'' (lc_Config c) @ field ''hostName'' (lc_HostName c)
       @ field ''mtu'' (lc_MTU c) @ field ''persistent_keep_alive'' (lc_PersistentKeepAlive c)
       @ [(''port'', JNumber (lc_Port c))]
       @ field ''psk_key'' (lc_PSKKey c) @ field ''server_pub_key'' (lc_ServerPubKey c))"

definition marshalContainer :: "amneziaContainer \<Rightarrow> json" where
  "marshalContainer c =
     JObject ([(''awg'', marshalAwgContainer (Awg c))] @ field ''container'' (Container c))"

definition marshalEnvelope :: "amneziaEnvelope \<Rightarrow> json" where
  "marshalEnvelope e =
     JObject ([(''containers'', JArray (map marshalContainer (Containers e)))]
       @ field ''defaultContainer'' (DefaultContainer e) @ field ''description'' (Description e)
       @ field ''dns1'' (DNS1 e) @ field ''dns2'' (DNS2 e) @ field ''hostName'' (HostName e))"

subsection \<open>buildAmneziaAwgVpnLink\<close>

text \<open>
  The fields of \<^verbatim>\<open>domain.Peer\<close> the encoder reads. A \<^verbatim>\<open>ConfigOption\<close> is held by the
  value its \<^verbatim>\<open>GetValue\<close> returns, an address by its \<^verbatim>\<open>Addr\<close> string.
\<close>

record PeerInterfaceConfig =
  if_PrivateKey :: string
  if_PublicKey :: string
  if_Addresses :: "string list"
  if_DnsStr :: string
  if_Mtu :: int
  if_AdvancedSecurity :: "AdvancedSecurity option"

record Peer =
  Endpoint :: string
  EndpointPublicKey :: string
  AllowedIPsStr :: string
  PresharedKey :: string
  PersistentKeepalive :: int
  Interface :: PeerInterfaceConfig

definition lastConfigOf ::
  "(string \<Rightarrow> string) \<Rightarrow> Peer \<Rightarrow> string \<Rightarrow> amneziaAwgLastConfig" where
  "lastConfigOf PublicKeyFromPrivateKey peer configText =
     (let (endpointHost, endpointPort) = parseEndpointHostPort (Endpoint peer);
          privKey = if_PrivateKey (Interface peer);
          derived = PublicKeyFromPrivateKey privKey;
          clientPubKey = (if derived = [] then if_PublicKey (Interface peer) else derived);
          clientIP = (case if_Addresses (Interface peer) of [] \<Rightarrow> [] | a # as \<Rightarrow> TrimSpace a);
          allowedIPs = splitCsvOrDefault (AllowedIPsStr peer) ''0.0.0.0/0,::/0'';
          mtu = if_Mtu (Interface peer);
          mtuStr = (if mtu \<noteq> 0 then Itoa mtu else ''1280'');
          keepAlive = PersistentKeepalive peer;
          keepAliveStr = (if keepAlive \<noteq> 0 then Itoa keepAlive else ''25'');
          serverPubKey = TrimSpace (EndpointPublicKey peer);
          psk = TrimSpace (PresharedKey peer);
          adv = if_AdvancedSecurity (Interface peer);
          base = amneziaAwgBaseParams adv;
          ext = amneziaAwgExtendedParams adv
      in \<lparr>lc_H1 = base_H1 base, lc_H2 = base_H2 base, lc_H3 = base_H3 base, lc_H4 = base_H4 base,
          lc_Jc = base_Jc base, lc_Jmax = base_Jmax base, lc_Jmin = base_Jmin base,
          lc_S1 = base_S1 base, lc_S2 = base_S2 base,
          lc_S3 = ext_S3 ext, lc_S4 = ext_S4 ext,
          lc_I1 = ext_I1 ext, lc_I2 = ext_I2 ext, lc_I3 = ext_I3 ext, lc_I4 = ext_I4 ext,
          lc_I5 = ext_I5 ext,
          lc_AllowedIPs = allowedIPs,
          lc_ClientID = clientPubKey, lc_ClientIP = clientIP, lc_ClientPrivKey = privKey,
          lc_ClientPubKey = clientPubKey,
          lc_Config = configText,
          lc_HostName = endpointHost, lc_MTU = mtuStr, lc_PersistentKeepAlive = keepAliveStr,
          lc_Port = endpointPort, lc_PSKKey = psk, lc_ServerPubKey = serverPubKey\<rparr>)"

definition envelopeOf :: "Peer \<Rightarrow> string \<Rightarrow> string \<Rightarrow> amneziaEnvelope" where
  "envelopeOf peer description lastCfgJSON =
     (let (endpointHost, endpointPort) = parseEndpointHostPort (Endpoint peer);
          (dns1, dns2) = pickDnsServers (if_DnsStr (Interface peer));
          adv = if_AdvancedSecurity (Interface peer);
          base = amneziaAwgBaseParams adv;
          ext = amneziaAwgExtendedParams adv
      in \<lparr>Containers =
            [\<lparr>Awg =
                \<lparr>awg_H1 = base_H1 base, awg_H2 = base_H2 base, awg_H3 = base_H3 base,
                 awg_H4 = base_H4 base, awg_Jc = base_Jc base, awg_Jmax = base_Jmax base,
                 awg_Jmin = base_Jmin base, awg_S1 = base_S1 base, awg_S2 = base_S2 base,
                 awg_S3 = ext_S3 ext, awg_S4 = ext_S4 ext,
                 awg_I1 = ext_I1 ext, awg_I2 = ext_I2 ext, awg_I3 = ext_I3 ext,
                 awg_I4 = ext_I4 ext, awg_I5 = ext_I5 ext,
                 awg_LastConfig = lastCfgJSON,
                 awg_Port = Itoa endpointPort,
                 awg_TransportProto = ''udp''\<rparr>,
              Container = ''amnezia-awg''\<rparr>],
          DefaultContainer = ''amnezia-awg'',
          Description = description,
          DNS1 = dns1, DNS2 = dns2,
          HostName = endpointHost\<rparr>)"

text \<open>
  The function itself. Its three library parameters: the key derivation of the domain
  package, the JSON string encoder and the deflate compressor. \<^verbatim>\<open>json.Marshal\<close>
  returns no error on structs of strings, integers and string slices, so the two
  marshalling error branches are never taken.
\<close>

definition buildAmneziaAwgVpnLink ::
  "(string \<Rightarrow> string) \<Rightarrow> (string \<Rightarrow> string) \<Rightarrow> (int \<Rightarrow> bytes \<Rightarrow> bytes)
     \<Rightarrow> Peer option \<Rightarrow> string \<Rightarrow> string \<Rightarrow> linkError + string" where
  "buildAmneziaAwgVpnLink PublicKeyFromPrivateKey quote deflate peer0 description configText =
     (case peer0 of
        None \<Rightarrow> Inl NilPeer
      | Some peer \<Rightarrow>
          if if_AdvancedSecurity (Interface peer) = None then Inl MissingAdvancedSecurity
          else
            let lastCfg = lastConfigOf PublicKeyFromPrivateKey peer configText;
                lastCfgJSON = jsonText quote (marshalLastConfig lastCfg);
                envelope = envelopeOf peer description lastCfgJSON;
                envelopeJSON = jsonText quote (marshalEnvelope envelope)
            in (case qtQCompress deflate envelopeJSON 8 of
                  Inl err \<Rightarrow> Inl err
                | Inr compressed \<Rightarrow> Inr (''vpn://'' @ EncodeToString compressed)))"


subsection \<open>Reading the link back\<close>

text \<open>
  \<^verbatim>\<open>binary.BigEndian.Uint32\<close>, the keys of a JSON object and the path to the \<open>awg\<close>
  object of an envelope, as a consumer of the link reads them; the bytes of the envelope
  that \<^verbatim>\<open>buildAmneziaAwgVpnLink\<close> compresses.
\<close>

definition Uint32 :: "bytes \<Rightarrow> nat" where
  "Uint32 b = of_char (b ! 0) * 2 ^ 24 + of_char (b ! 1) * 2 ^ 16 + of_char (b ! 2) * 2 ^ 8 + of_char (b ! 3)"

definition objectKeys :: "json \<Rightarrow> string list" where
  "objectKeys j = (case j of JObject kvs \<Rightarrow> map fst kvs | _ \<Rightarrow> [])"

definition member :: "string \<Rightarrow> json \<Rightarrow> json option" where
  "member k j = (case j of JObject kvs \<Rightarrow> map_of kvs k | _ \<Rightarrow> None)"

definition awgOfEnvelope :: "json \<Rightarrow> json option" where
  "awgOfEnvelope j =
     (case member ''containers'' j of
        Some (JArray (c # cs)) \<Rightarrow> member ''awg'' c
      | _ \<Rightarrow> None)"

text \<open>
  The rule of the interface description for the obfuscation keys of an \<open>awg\<close> or
  \<open>last_config\<close> object, in its own words: nine keys always, \<open>S3\<close> and \<open>S4\<close> when the
  field is not zero, \<open>I1\<close> to \<open>I5\<close> when the pointer is set and its trimmed value is not
  empty.
\<close>

definition junkPacketPresent :: "string option \<Rightarrow> bool" where
  "junkPacketPresent p = (case p of None \<Rightarrow> False | Some s \<Rightarrow> TrimSpace s \<noteq> [])"

definition keysAsSpecified :: "AdvancedSecurity \<Rightarrow> string list \<Rightarrow> bool" where
  "keysAsSpecified a ks =
     (list_all (\<lambda>k. k \<in> set ks) [''H1'', ''H2'', ''H3'', ''H4'', ''Jc'', ''Jmax'', ''Jmin'', ''S1'', ''S2'']
      \<and> (''S3'' \<in> set ks \<longleftrightarrow> CookieReplyPacketJunkSize a \<noteq> 0)
      \<and> (''S4'' \<in> set ks \<longleftrightarrow> TransportPacketJunkSize a \<noteq> 0)
      \<and> (''I1'' \<in> set ks \<longleftrightarrow> junkPacketPresent (FirstSpecialJunkPacket a))
      \<and> (''I2'' \<in> set ks \<longleftrightarrow> junkPacketPresent (SecondSpecialJunkPacket a))
      \<and> (''I3'' \<in> set ks \<longleftrightarrow> junkPacketPresent (ThirdSpecialJunkPacket a))
      \<and> (''I4'' \<in> set ks \<longleftrightarrow> junkPacketPresent (FourthSpecialJunkPacket a))
      \<and> (''I5'' \<in> set ks \<longleftrightarrow> junkPacketPresent (FifthSpecialJunkPacket a)))"

definition envelopeBytes ::
  "(string \<Rightarrow> string) \<Rightarrow> (string \<Rightarrow> string) \<Rightarrow> Peer \<Rightarrow> string \<Rightarrow> string \<Rightarrow> bytes" where
  "envelopeBytes PublicKeyFromPrivateKey quote peer description configText =
     jsonText quote (marshalEnvelope (envelopeOf peer description
       (jsonText quote (marshalLastConfig (lastConfigOf PublicKeyFromPrivateKey peer configText)))))"

section \<open>Configuration: the provisioning spec and its validation\<close>

subsection \<open>strconv.ParseUint with base 0 and 32 bits\<close>

datatype numError = ErrSyntax | ErrRange

text \<open>\<^verbatim>\<open>lower(c)\<close> of strconv: the byte with bit 5 set.\<close>

definition lower :: "char \<Rightarrow> nat" where
  "lower c = (if ((of_char c :: nat) div 32) mod 2 = 0 then of_char c + 32 else of_char c)"

definition digitVal :: "char \<Rightarrow> nat option" where
  "digitVal c =
     (if isDigit c then Some (of_char c - 48)
      else if 97 \<le> lower c \<and> lower c \<le> 122 then Some (lower c - 97 + 10)
      else None)"

fun parseDigits :: "nat \<Rightarrow> nat \<Rightarrow> nat \<Rightarrow> string \<Rightarrow> numError + nat" where
  "parseDigits base maxVal n [] = Inr n"
| "parseDigits base maxVal n (c # cs) =
     (if c = CHR ''_'' then parseDigits base maxVal n cs
      else (case digitVal c of
              None \<Rightarrow> Inl ErrSyntax
            | Some d \<Rightarrow>
                if base \<le> d then Inl ErrSyntax
                else if maxVal < n * base + d then Inl ErrRange
                else parseDigits base maxVal (n * base + d) cs))"

datatype saw = SawBegin | SawDigit | SawUnderscore | SawOther

fun underscoreScan :: "bool \<Rightarrow> saw \<Rightarrow> string \<Rightarrow> bool" where
  "underscoreScan hex sw [] = (sw \<noteq> SawUnderscore)"
| "underscoreScan hex sw (c # cs) =
     (if isDigit c \<or> (hex \<and> 97 \<le> lower c \<and> lower c \<le> 102) then underscoreScan hex SawDigit cs
      else if c = CHR ''_'' then (if sw \<noteq> SawDigit then False else underscoreScan hex SawUnderscore cs)
      else if sw = SawUnderscore then False
      else underscoreScan hex SawOther cs)"

definition hasBasePrefix :: "string \<Rightarrow> bool" where
  "hasBasePrefix s =
     (2 \<le> length s \<and> s ! 0 = CHR ''0'' \<and> (lower (s ! 1) = 98 \<or> lower (s ! 1) = 111 \<or> lower (s ! 1) = 120))"

definition underscoreOK :: "string \<Rightarrow> bool" where
  "underscoreOK s0 =
     (let s = (if s0 \<noteq> [] \<and> (hd s0 = CHR ''-'' \<or> hd s0 = CHR ''+'') then tl s0 else s0)
      in if hasBasePrefix s then underscoreScan (lower (s ! 1) = 120) SawDigit (drop 2 s)
         else underscoreScan False SawBegin s)"

definition ParseUint32 :: "string \<Rightarrow> numError + nat" where
  "ParseUint32 s =
     (if s = [] then Inl ErrSyntax
      else let (base, ds) =
                 (if s ! 0 = CHR ''0'' then
                    (if 3 \<le> length s \<and> lower (s ! 1) = 98 then (2, drop 2 s)
                     else if 3 \<le> length s \<and> lower (s ! 1) = 111 then (8, drop 2 s)
                     else if 3 \<le> length s \<and> lower (s ! 1) = 120 then (16, drop 2 s)
                     else (8, drop 1 s))
                  else (10, s))
           in (case parseDigits base (2 ^ 32 - 1) 0 ds of
                 Inl e \<Rightarrow> Inl e
               | Inr n \<Rightarrow> if CHR ''_'' \<in> set ds \<and> \<not> underscoreOK s then Inl ErrSyntax else Inr n))"

subsection \<open>Errors and warnings\<close>

text \<open>
  One constructor for each \<^verbatim>\<open>fmt.Errorf\<close> of the configuration package, holding the
  arguments of its format string; one for each \<^verbatim>\<open>slog.Warn\<close>.
\<close>

datatype configError =
    InvalidWireGuardMode string
  | IdentifierEmpty nat
  | IdentifierNotUnique string
  | InvalidMode string
  | InvalidListenPort string
  | NegativeMtu string
  | NegativePeerDefMtu string
  | CidrEmpty string nat
  | CidrInvalid string nat string
  | AdvancedSecurityUnsupported string
  | JunkSizesZero string
  | JunkSizesOrder string
  | NotUint32 string
  | StringEmpty string
  | StringTooLong string

datatype warning =
    WarnJunkDisabled string
  | WarnDnsNotInherited string
  | WarnMtuNotInherited string int

definition WireGuardModeDisabled :: string where "WireGuardModeDisabled = ''disabled''"
definition WireGuardModeWireGuard :: string where "WireGuardModeWireGuard = ''wireguard''"
definition WireGuardModeAmneziaWG :: string where "WireGuardModeAmneziaWG = ''amneziawg''"

definition maxAwgStringLen :: nat where
  "maxAwgStringLen = 5 * 1024"

subsection \<open>validateAdvancedSecurity\<close>

definition validateAwgUint32IfSet :: "string \<Rightarrow> string \<Rightarrow> configError option" where
  "validateAwgUint32IfSet fld raw =
     (let val = TrimSpace raw
      in if val = [] then None
         else (case ParseUint32 val of Inl e \<Rightarrow> Some (NotUint32 fld) | Inr n \<Rightarrow> None))"

text \<open>
  \<^verbatim>\<open>validateAwgStringPtr\<close> receives the address of a pointer field. The model takes the
  field's value and returns the value it holds afterwards with the error: the
  assignment \<^verbatim>\<open>**raw = val\<close> replaces the string the field points to. Two fields are
  taken not to share a string.
\<close>

definition validateAwgStringPtr :: "string \<Rightarrow> string option \<Rightarrow> string option \<times> configError option" where
  "validateAwgStringPtr fld raw =
     (case raw of
        None \<Rightarrow> (None, None)
      | Some r \<Rightarrow>
          let val = TrimSpace r
          in if val = [] then (raw, Some (StringEmpty fld))
             else if maxAwgStringLen \<le> length val then (raw, Some (StringTooLong fld))
             else (Some val, None))"

text \<open>The first block of \<^verbatim>\<open>validateAdvancedSecurity\<close>: the junk-packet range.\<close>

definition junkPacketCheck :: "string \<Rightarrow> AdvancedSecurity \<Rightarrow> warning list \<times> configError option" where
  "junkPacketCheck fld s =
     (if 0 < JunkPacketCount s then
        (if JunkPacketMinSize s = 0 \<or> JunkPacketMaxSize s = 0 then ([], Some (JunkSizesZero fld))
         else if JunkPacketMaxSize s < JunkPacketMinSize s then ([], Some (JunkSizesOrder fld))
         else ([], None))
      else if JunkPacketMinSize s \<noteq> 0 \<or> JunkPacketMaxSize s \<noteq> 0 then ([WarnJunkDisabled fld], None)
      else ([], None))"

text \<open>The second block: the four magic headers, in order, stopping at the first error.\<close>

definition magicHeaderCheck :: "string \<Rightarrow> AdvancedSecurity \<Rightarrow> configError option" where
  "magicHeaderCheck fld s =
     (case validateAwgUint32IfSet (fld @ ''.init_packet_magic_header (h1)'') (InitPacketMagicHeader s) of
        Some e \<Rightarrow> Some e
      | None \<Rightarrow>
     (case validateAwgUint32IfSet (fld @ ''.response_packet_magic_header (h2)'') (ResponsePacketMagicHeader s) of
        Some e \<Rightarrow> Some e
      | None \<Rightarrow>
     (case validateAwgUint32IfSet (fld @ ''.underload_packet_magic_header (h3)'') (UnderloadPacketMagicHeader s) of
        Some e \<Rightarrow> Some e
      | None \<Rightarrow>
        validateAwgUint32IfSet (fld @ ''.transport_packet_magic_header (h4)'') (TransportPacketMagicHeader s))))"

text \<open>The third block: the five special junk packets, each written back when accepted.\<close>

definition specialJunkCheck :: "string \<Rightarrow> AdvancedSecurity \<Rightarrow> AdvancedSecurity \<times> configError option" where
  "specialJunkCheck fld s =
     (case validateAwgStringPtr (fld @ ''.first_special_junk_packet (i1)'') (FirstSpecialJunkPacket s) of
        (p1, Some e) \<Rightarrow> (s\<lparr>FirstSpecialJunkPacket := p1\<rparr>, Some e)
      | (p1, None) \<Rightarrow>
     (case validateAwgStringPtr (fld @ ''.second_special_junk_packet (i2)'') (SecondSpecialJunkPacket s) of
        (p2, Some e) \<Rightarrow> (s\<lparr>FirstSpecialJunkPacket := p1, SecondSpecialJunkPacket := p2\<rparr>, Some e)
      | (p2, None) \<Rightarrow>
     (case validateAwgStringPtr (fld @ ''.third_special_junk_packet (i3)'') (ThirdSpecialJunkPacket s) of
        (p3, Some e) \<Rightarrow>
          (s\<lparr>FirstSpecialJunkPacket := p1, SecondSpecialJunkPacket := p2,
             ThirdSpecialJunkPacket := p3\<rparr>, Some e)
      | (p3, None) \<Rightarrow>
     (case validateAwgStringPtr (fld @ ''.fourth_special_junk_packet (i4)'') (FourthSpecialJunkPacket s) of
        (p4, Some e) \<Rightarrow>
          (s\<lparr>FirstSpecialJunkPacket := p1, SecondSpecialJunkPacket := p2,
             ThirdSpecialJunkPacket := p3, FourthSpecialJunkPacket := p4\<rparr>, Some e)
      | (p4, None) \<Rightarrow>
     (case validateAwgStringPtr (fld @ ''.fifth_special_junk_packet (i5)'') (FifthSpecialJunkPacket s) of
        (p5, e) \<Rightarrow>
          (s\<lparr>FirstSpecialJunkPacket := p1, SecondSpecialJunkPacket := p2,
             ThirdSpecialJunkPacket := p3, FourthSpecialJunkPacket := p4,
             FifthSpecialJunkPacket := p5\<rparr>, e))))))"

text \<open>
  \<^verbatim>\<open>validateAdvancedSecurity\<close>: the block after the call, the warnings logged and the
  error returned (\<^term>\<open>None\<close> for nil).
\<close>

definition validateAdvancedSecurity ::
  "string \<Rightarrow> AdvancedSecurity \<Rightarrow> AdvancedSecurity \<times> warning list \<times> configError option" where
  "validateAdvancedSecurity fld s =
     (case junkPacketCheck fld s of
        (ws, Some e) \<Rightarrow> (s, ws, Some e)
      | (ws, None) \<Rightarrow>
          (case magicHeaderCheck fld s of
             Some e \<Rightarrow> (s, ws, Some e)
           | None \<Rightarrow> (case specialJunkCheck fld s of (s', e) \<Rightarrow> (s', ws, e))))"


subsection \<open>sanitizeProvisioningInterfaces and Sanitize\<close>

text \<open>
  The fields of \<^verbatim>\<open>ProvisioningInterface\<close> and of \<^verbatim>\<open>Config\<close> that sanitizing reads
  or writes. \<^verbatim>\<open>strings.ToLower\<close> and \<^verbatim>\<open>netip.ParsePrefix\<close> (here: whether it
  succeeds) are parameters of the model.
\<close>

record ProvisioningInterface =
  Identifier :: string
  Mode :: string
  ListenPort :: int
  Addresses :: "string list"
  Dns :: "string list"
  Mtu :: int
  PeerDefNetwork :: "string list"
  PeerDefDns :: "string list"
  PeerDefAllowedIPs :: "string list"
  PeerDefMtu :: int
  AdvancedSecurity :: "AdvancedSecurity option"

record Config =
  WireGuardMode :: string
  Interfaces :: "ProvisioningInterface list"

fun validateCidrArray ::
  "(string \<Rightarrow> bool) \<Rightarrow> string \<Rightarrow> nat \<Rightarrow> string list \<Rightarrow> configError option" where
  "validateCidrArray ParsePrefix fld i [] = None"
| "validateCidrArray ParsePrefix fld i (raw # cidrs) =
     (let val = TrimSpace raw
      in if val = [] then Some (CidrEmpty fld i)
         else if \<not> ParsePrefix val then Some (CidrInvalid fld i raw)
         else validateCidrArray ParsePrefix fld (Suc i) cidrs)"

definition ifaceField :: "string \<Rightarrow> string \<Rightarrow> string" where
  "ifaceField ident name = ''provisioning.interfaces['' @ ident @ ''].'' @ name"

definition hints :: "string \<Rightarrow> ProvisioningInterface \<Rightarrow> warning list" where
  "hints ident iface =
     (if Dns iface \<noteq> [] \<and> PeerDefDns iface = [] then [WarnDnsNotInherited ident] else [])
     @ (if Mtu iface \<noteq> 0 \<and> PeerDefMtu iface = 0 then [WarnMtuNotInherited ident (Mtu iface)] else [])"

text \<open>
  The part of the loop body from the listen-port check on, for the interface with its
  identifier and mode already written back.
\<close>

definition sanitizeSettings ::
  "(string \<Rightarrow> bool) \<Rightarrow> string \<Rightarrow> string \<Rightarrow> ProvisioningInterface
     \<Rightarrow> ProvisioningInterface \<times> warning list \<times> configError option" where
  "sanitizeSettings ParsePrefix wgMode ident iface =
     (if ListenPort iface \<noteq> 0 \<and> (ListenPort iface < 1 \<or> 65535 < ListenPort iface)
        then (iface, [], Some (InvalidListenPort ident))
      else if Mtu iface < 0 then (iface, [], Some (NegativeMtu ident))
      else if PeerDefMtu iface < 0 then (iface, [], Some (NegativePeerDefMtu ident))
      else
     (case (if 0 < length (Addresses iface)
            then validateCidrArray ParsePrefix (ifaceField ident ''addresses'') 0 (Addresses iface)
            else None) of
        Some e \<Rightarrow> (iface, [], Some e)
      | None \<Rightarrow>
     (case (if 0 < length (PeerDefAllowedIPs iface)
            then validateCidrArray ParsePrefix (ifaceField ident ''peer_def_allowed_ips'') 0
                   (PeerDefAllowedIPs iface)
            else None) of
        Some e \<Rightarrow> (iface, [], Some e)
      | None \<Rightarrow>
     (case (if 0 < length (PeerDefNetwork iface)
            then validateCidrArray ParsePrefix (ifaceField ident ''peer_def_network'') 0
                   (PeerDefNetwork iface)
            else None) of
        Some e \<Rightarrow> (iface, [], Some e)
      | None \<Rightarrow>
     (case AdvancedSecurity iface of
        None \<Rightarrow> (iface, hints ident iface, None)
      | Some adv \<Rightarrow>
          if wgMode \<noteq> WireGuardModeAmneziaWG then (iface, [], Some (AdvancedSecurityUnsupported ident))
          else (case validateAdvancedSecurity (ifaceField ident ''advanced_security'') adv of
                  (adv', ws, Some e) \<Rightarrow> (iface\<lparr>AdvancedSecurity := Some adv'\<rparr>, ws, Some e)
                | (adv', ws, None) \<Rightarrow>
                    (iface\<lparr>AdvancedSecurity := Some adv'\<rparr>, ws @ hints ident iface, None)))))))"

text \<open>
  One pass of the loop body for the interface at index \<open>idx\<close>: the interface as the pass
  leaves it, the \<open>seen\<close> map after it, the warnings logged and the error returned.
\<close>

definition sanitizeInterface ::
  "(string \<Rightarrow> string) \<Rightarrow> (string \<Rightarrow> bool) \<Rightarrow> string \<Rightarrow> nat \<Rightarrow> string set
     \<Rightarrow> ProvisioningInterface
     \<Rightarrow> ProvisioningInterface \<times> string set \<times> warning list \<times> configError option" where
  "sanitizeInterface ToLower ParsePrefix wgMode idx seen iface0 =
     (let ident = TrimSpace (Identifier iface0)
      in if ident = [] then (iface0, seen, [], Some (IdentifierEmpty idx))
         else let iface1 = iface0\<lparr>Identifier := ident\<rparr>
              in if ident \<in> seen then (iface1, seen, [], Some (IdentifierNotUnique ident))
                 else let mode = ToLower (TrimSpace (Mode iface1))
                      in if mode \<noteq> [] \<and> mode \<noteq> ''server'' \<and> mode \<noteq> ''client'' \<and> mode \<noteq> ''any''
                           then (iface1, insert ident seen, [], Some (InvalidMode ident))
                         else (case sanitizeSettings ParsePrefix wgMode ident
                                      (if mode \<noteq> [] then iface1\<lparr>Mode := mode\<rparr> else iface1) of
                                 (iface2, ws, e) \<Rightarrow> (iface2, insert ident seen, ws, e)))"

text \<open>
  The loop: \<open>passed\<close> holds the interfaces already passed (as updated), \<open>ifaces\<close> those
  still to visit. An error returns at once, leaving the rest untouched.
\<close>

fun sanitizeLoop ::
  "(string \<Rightarrow> string) \<Rightarrow> (string \<Rightarrow> bool) \<Rightarrow> string \<Rightarrow> string set
     \<Rightarrow> ProvisioningInterface list \<Rightarrow> warning list \<Rightarrow> ProvisioningInterface list
     \<Rightarrow> ProvisioningInterface list \<times> warning list \<times> configError option" where
  "sanitizeLoop ToLower ParsePrefix wgMode seen passed log [] = (passed, log, None)"
| "sanitizeLoop ToLower ParsePrefix wgMode seen passed log (iface # ifaces) =
     (case sanitizeInterface ToLower ParsePrefix wgMode (length passed) seen iface of
        (iface', seen', ws, Some e) \<Rightarrow> (passed @ iface' # ifaces, log @ ws, Some e)
      | (iface', seen', ws, None) \<Rightarrow>
          sanitizeLoop ToLower ParsePrefix wgMode seen' (passed @ [iface']) (log @ ws) ifaces)"

definition sanitizeProvisioningInterfaces ::
  "(string \<Rightarrow> string) \<Rightarrow> (string \<Rightarrow> bool) \<Rightarrow> Config \<Rightarrow> Config \<times> warning list \<times> configError option" where
  "sanitizeProvisioningInterfaces ToLower ParsePrefix c =
     (if length (Interfaces c) = 0 then (c, [], None)
      else (case sanitizeLoop ToLower ParsePrefix (WireGuardMode c) {} [] [] (Interfaces c) of
              (ifaces, log, e) \<Rightarrow> (c\<lparr>Interfaces := ifaces\<rparr>, log, e)))"

definition Sanitize ::
  "(string \<Rightarrow> string) \<Rightarrow> (string \<Rightarrow> bool) \<Rightarrow> Config \<Rightarrow> Config \<times> warning list \<times> configError option" where
  "Sanitize ToLower ParsePrefix c0 =
     (let m = TrimSpace (ToLower (WireGuardMode c0));
          c = c0\<lparr>WireGuardMode := (if m = [] then WireGuardModeDisabled else m)\<rparr>
      in if WireGuardMode c = WireGuardModeDisabled \<or> WireGuardMode c = WireGuardModeWireGuard
            \<or> WireGuardMode c = WireGuardModeAmneziaWG
         then sanitizeProvisioningInterfaces ToLower ParsePrefix c
         else (c, [], Some (InvalidWireGuardMode (WireGuardMode c))))"

text \<open>ASCII lower-casing: what \<^verbatim>\<open>strings.ToLower\<close> does on an ASCII string.\<close>

definition asciiLower :: "string \<Rightarrow> string" where
  "asciiLower s = map (\<lambda>c. if 65 \<le> (of_char c :: nat) \<and> (of_char c :: nat) \<le> 90
                            then char_of ((of_char c :: nat) + 32) else c) s"

subsection \<open>The rules of the specification, in its words\<close>

text \<open>
  The errors of the junk-packet range; the first identifier or mode violation of a list
  of interfaces, scanning it in order with the identifiers seen so far; and a list free
  of such violations: no identifier empty after trimming, no two equal, every mode one
  of \<open>server\<close>, \<open>client\<close>, \<open>any\<close> or empty after trimming and lower-casing.
\<close>

definition isJunkRangeError :: "configError \<Rightarrow> bool" where
  "isJunkRangeError e = (case e of JunkSizesZero f \<Rightarrow> True | JunkSizesOrder f \<Rightarrow> True | _ \<Rightarrow> False)"

fun firstIdModeViolation ::
  "(string \<Rightarrow> string) \<Rightarrow> nat \<Rightarrow> string set \<Rightarrow> ProvisioningInterface list \<Rightarrow> configError option" where
  "firstIdModeViolation ToLower idx seen [] = None"
| "firstIdModeViolation ToLower idx seen (iface # ifaces) =
     (let ident = TrimSpace (Identifier iface); mode = ToLower (TrimSpace (Mode iface))
      in if ident = [] then Some (IdentifierEmpty idx)
         else if ident \<in> seen then Some (IdentifierNotUnique ident)
         else if mode \<noteq> ''server'' \<and> mode \<noteq> ''client'' \<and> mode \<noteq> ''any'' \<and> mode \<noteq> []
           then Some (InvalidMode ident)
         else firstIdModeViolation ToLower (Suc idx) (insert ident seen) ifaces)"



text \<open>
  One pass of the loop body, by the outcome of the identifier and mode checks; \<open>settled\<close>
  is the interface with its identifier and mode written back.
\<close>

definition settled :: "(string \<Rightarrow> string) \<Rightarrow> ProvisioningInterface \<Rightarrow> ProvisioningInterface" where
  "settled ToLower iface =
     (if ToLower (TrimSpace (Mode iface)) \<noteq> []
      then iface\<lparr>Identifier := TrimSpace (Identifier iface), Mode := ToLower (TrimSpace (Mode iface))\<rparr>
      else iface\<lparr>Identifier := TrimSpace (Identifier iface)\<rparr>)"


section \<open>The configuration-file manager's event handlers\<close>

text \<open>
  A handler is modelled by the trace of what it does to its surroundings: the calls to
  the repository, the template renderer and the file-system collaborator, and its log
  lines. The collaborators' answers are fields of the manager; \<^term>\<open>None\<close> is an
  error return. \<^verbatim>\<open>GetConfigFileName\<close> belongs to the domain package.
\<close>

record Interface' =
  iface_Identifier :: string
  SaveConfig :: bool

datatype effect =
    CallGetInterface string
  | CallGetInterfaceAndPeers string
  | CallRenderInterfaceConfig string
  | CallWriteFile string bytes
  | CallDeleteFile string
  | LogDebug string string
  | LogError string string

record 'p Manager =
  wg_GetInterface :: "string \<Rightarrow> Interface' option"
  wg_GetInterfaceAndPeers :: "string \<Rightarrow> (Interface' \<times> 'p) option"
  tpl_GetInterfaceConfig :: "Interface' \<Rightarrow> 'p \<Rightarrow> bytes option"
  fs_WriteFile :: "string \<Rightarrow> bytes \<Rightarrow> bool"
  fs_DeleteFile :: "string \<Rightarrow> bool"
  GetConfigFileName :: "Interface' \<Rightarrow> string"

definition PersistInterfaceConfig :: "'p Manager \<Rightarrow> string \<Rightarrow> effect list \<times> bool" where
  "PersistInterfaceConfig m ident =
     (case wg_GetInterfaceAndPeers m ident of
        None \<Rightarrow> ([CallGetInterfaceAndPeers ident], False)
      | Some (iface, peers) \<Rightarrow>
          (case tpl_GetInterfaceConfig m iface peers of
             None \<Rightarrow>
               ([CallGetInterfaceAndPeers ident, CallRenderInterfaceConfig (iface_Identifier iface)],
                False)
           | Some cfg \<Rightarrow>
               ([CallGetInterfaceAndPeers ident, CallRenderInterfaceConfig (iface_Identifier iface),
                 CallWriteFile (GetConfigFileName m iface) cfg],
                fs_WriteFile m (GetConfigFileName m iface) cfg)))"

definition UnpersistInterfaceConfig :: "'p Manager \<Rightarrow> string \<Rightarrow> effect list \<times> bool" where
  "UnpersistInterfaceConfig m filename = ([CallDeleteFile filename], fs_DeleteFile m filename)"

definition handleInterfaceSavedEvent :: "'p Manager \<Rightarrow> Interface' \<Rightarrow> effect list" where
  "handleInterfaceSavedEvent m iface =
     (if \<not> SaveConfig iface then []
      else (case PersistInterfaceConfig m (iface_Identifier iface) of
              (tr, ok) \<Rightarrow>
                LogDebug ''handling interface save event'' (iface_Identifier iface) # tr
                  @ (if ok then []
                     else [LogError ''failed to automatically persist interface config''
                             (iface_Identifier iface)])))"

definition handleInterfaceDeleteEvent :: "'p Manager \<Rightarrow> Interface' \<Rightarrow> effect list" where
  "handleInterfaceDeleteEvent m iface =
     (if \<not> SaveConfig iface then []
      else (case UnpersistInterfaceConfig m (GetConfigFileName m iface) of
              (tr, ok) \<Rightarrow>
                LogDebug ''handling interface delete event'' (iface_Identifier iface) # tr
                  @ (if ok then []
                     else [LogError ''failed to remove persisted interface config''
                             (iface_Identifier iface)])))"

definition handlePeerInterfaceUpdatedEvent :: "'p Manager \<Rightarrow> string \<Rightarrow> effect list" where
  "handlePeerInterfaceUpdatedEvent m ident =
     (case wg_GetInterface m ident of
        None \<Rightarrow> [CallGetInterface ident, LogError ''failed to load interface'' ident]
      | Some peerInterface \<Rightarrow>
          if \<not> SaveConfig peerInterface then [CallGetInterface ident]
          else (case PersistInterfaceConfig m (iface_Identifier peerInterface) of
                  (tr, ok) \<Rightarrow>
                    CallGetInterface ident
                      # LogDebug ''handling peer interface updated event'' ident # tr
                      @ (if ok then []
                         else [LogError ''failed to automatically persist interface config''
                                 (iface_Identifier peerInterface)])))"

text \<open>The subscriptions of \<^verbatim>\<open>connectToMessageBus\<close>: the handler each topic reaches.\<close>

datatype busEvent =
    TopicInterfaceCreated Interface'
  | TopicInterfaceUpdated Interface'
  | TopicInterfaceDeleted Interface'
  | TopicPeerInterfaceUpdated string

fun deliver :: "'p Manager \<Rightarrow> busEvent \<Rightarrow> effect list" where
  "deliver m (TopicInterfaceCreated iface) = handleInterfaceSavedEvent m iface"
| "deliver m (TopicInterfaceUpdated iface) = handleInterfaceSavedEvent m iface"
| "deliver m (TopicInterfaceDeleted iface) = handleInterfaceDeleteEvent m iface"
| "deliver m (TopicPeerInterfaceUpdated ident) = handlePeerInterfaceUpdatedEvent m ident"

definition touchesFiles :: "effect \<Rightarrow> bool" where
  "touchesFiles e = (case e of CallWriteFile p c \<Rightarrow> True | CallDeleteFile p \<Rightarrow> True | _ \<Rightarrow> False)"


section \<open>Example values\<close>

definition exampleManager :: "unit Manager" where
  "exampleManager =
     \<lparr>wg_GetInterface = (\<lambda>i. Some \<lparr>iface_Identifier = i, SaveConfig = False\<rparr>),
      wg_GetInterfaceAndPeers = (\<lambda>i. Some (\<lparr>iface_Identifier = i, SaveConfig = False\<rparr>, ())),
      tpl_GetInterfaceConfig = (\<lambda>iface peers. Some ''[Interface]''),
      fs_WriteFile = (\<lambda>path contents. True),
      fs_DeleteFile = (\<lambda>path. True),
      GetConfigFileName = (\<lambda>iface. iface_Identifier iface @ ''.conf'')\<rparr>"

definition exampleQuote :: "string \<Rightarrow> string" where
  "exampleQuote s = CHR 0x22 # s @ [CHR 0x22]"

definition exampleAdv :: AdvancedSecurity where
  "exampleAdv =
     \<lparr>JunkPacketCount = 4, JunkPacketMinSize = 50, JunkPacketMaxSize = 1000,
      InitPacketJunkSize = 0, ResponsePacketJunkSize = 0,
      CookieReplyPacketJunkSize = 7, TransportPacketJunkSize = 0,
      InitPacketMagicHeader = '' 1 '', ResponsePacketMagicHeader = ''2'',
      UnderloadPacketMagicHeader = ''3'', TransportPacketMagicHeader = ''4'',
      FirstSpecialJunkPacket = Some '' '', SecondSpecialJunkPacket = Some '' <b 0xff> '',
      ThirdSpecialJunkPacket = None, FourthSpecialJunkPacket = None,
      FifthSpecialJunkPacket = None\<rparr>"

definition examplePeer :: Peer where
  "examplePeer =
     \<lparr>Endpoint = ''vpn.example.com:443'', EndpointPublicKey = ''SPK'', AllowedIPsStr = '''',
      PresharedKey = ''psk'', PersistentKeepalive = 0,
      Interface = \<lparr>if_PrivateKey = ''priv'', if_PublicKey = ''pub'', if_Addresses = [''10.0.0.2/32''],
                    if_DnsStr = ''8.8.8.8'', if_Mtu = 1420, if_AdvancedSecurity = Some exampleAdv\<rparr>\<rparr>"

definition exampleBlock :: AdvancedSecurity where
  "exampleBlock =
     \<lparr>JunkPacketCount = 1, JunkPacketMinSize = 50, JunkPacketMaxSize = 100,
      InitPacketJunkSize = 0, ResponsePacketJunkSize = 0,
      CookieReplyPacketJunkSize = 0, TransportPacketJunkSize = 0,
      InitPacketMagicHeader = ''0x1F'', ResponsePacketMagicHeader = '''',
      UnderloadPacketMagicHeader = '''', TransportPacketMagicHeader = '''',
      FirstSpecialJunkPacket = Some '' <b 0xff> '', SecondSpecialJunkPacket = None,
      ThirdSpecialJunkPacket = None, FourthSpecialJunkPacket = None,
      FifthSpecialJunkPacket = None\<rparr>"

definition exampleInterface :: ProvisioningInterface where
  "exampleInterface =
     \<lparr>Identifier = '' wg0 '', Mode = ''Server'', ListenPort = 51820, Addresses = [''10.0.0.1/24''],
      Dns = [], Mtu = 0, PeerDefNetwork = [], PeerDefDns = [], PeerDefAllowedIPs = [],
      PeerDefMtu = 0, AdvancedSecurity = None\<rparr>"

section \<open>Properties of the library models\<close>

lemma stripLeading_asciiSpace:
  "\<forall>c \<in> set s. asciiSpace c \<Longrightarrow> stripLeading spaceRunes s = []"
proof (induction s)
  case Nil
  show ?case by (subst stripLeading.simps) (simp add: spaceRunes_def startsWith_def)
next
  case (Cons c cs)
  then have c: "asciiSpace c" and ih: "stripLeading spaceRunes cs = []" by simp_all
  from c have "find (startsWith (c # cs)) spaceRunes = Some [c]"
    unfolding asciiSpace_def by (elim disjE) (simp_all add: spaceRunes_def startsWith_def)
  then show ?case using ih by (subst stripLeading.simps) simp
qed

lemma stripLeading_Nil: "stripLeading pats [] = []"
proof -
  have "find (startsWith []) pats = None" by (simp add: find_None_iff startsWith_def)
  then show ?thesis by (subst stripLeading.simps) simp
qed

lemma TrimSpace_asciiSpace: "\<forall>c \<in> set s. asciiSpace c \<Longrightarrow> TrimSpace s = []"
  by (simp add: TrimSpace_def trimLeft_def trimRight_def stripLeading_asciiSpace stripLeading_Nil)

lemma indexByte_None: "indexByte s c = None \<longleftrightarrow> c \<notin> set s"
  by (induction s) auto

lemma SplitHostPort_no_colon: "CHR '':'' \<notin> set s \<Longrightarrow> SplitHostPort s = Inl MissingPort"
  by (simp add: SplitHostPort_def lastIndexByte_def indexByte_None[THEN iffD2])

lemma parse_blank: "TrimSpace e = [] \<Longrightarrow> parseEndpointHostPort e = (''127.0.0.1'', 51820)"
  by (simp add: parseEndpointHostPort_def)

lemma parse_bare:
  "TrimSpace e \<noteq> [] \<Longrightarrow> CHR '':'' \<notin> set (TrimSpace e) \<Longrightarrow> parseEndpointHostPort e = (TrimSpace e, 51820)"
  by (simp add: parseEndpointHostPort_def SplitHostPort_no_colon)

lemma parse_bad_port:
  assumes "SplitHostPort (TrimSpace e) = Inr (h, p)" and "Atoi p = None"
  shows "parseEndpointHostPort e = (if TrimSpace h = [] then ''127.0.0.1'' else TrimSpace h, 51820)"
proof -
  have "TrimSpace e \<noteq> []"
  proof
    assume "TrimSpace e = []"
    with assms(1) show False by (simp add: SplitHostPort_no_colon)
  qed
  with assms show ?thesis by (simp add: parseEndpointHostPort_def)
qed


section \<open>Endpoint resolution\<close>

lemma parse_good_port:
  assumes "SplitHostPort (TrimSpace e) = Inr (h, p)" and "Atoi p = Some n"
  shows "parseEndpointHostPort e = (if TrimSpace h = [] then ''127.0.0.1'' else TrimSpace h, n)"
proof -
  have "TrimSpace e \<noteq> []"
  proof
    assume "TrimSpace e = []"
    with assms(1) show False by (simp add: SplitHostPort_no_colon)
  qed
  with assms show ?thesis by (simp add: parseEndpointHostPort_def)
qed

text \<open>
  Claim C5. \<^verbatim>\<open>parseEndpointHostPort\<close> maps the empty string, every string of ASCII
  white space and every string that \<^verbatim>\<open>TrimSpace\<close> empties to \<open>("127.0.0.1", 51820)\<close>;
  a bare host (no colon after trimming) to that host with port 51820, as for
  \<open>"192.168.1.1"\<close>; \<open>"192.168.1.1:51821"\<close> to \<open>("192.168.1.1", 51821)\<close>;
  \<open>"[::1]:51821"\<close> to \<open>("::1", 51821)\<close>; and whenever the trimmed input splits into a
  host and a port segment that \<^verbatim>\<open>Atoi\<close> rejects, the result is the parsed host (trimmed;
  the default host when that is empty) with the default port 51820.
\<close>

theorem parseEndpointHostPort_resolution:
  "parseEndpointHostPort '''' = (''127.0.0.1'', 51820)
   \<and> (list_all asciiSpace ws \<longrightarrow> parseEndpointHostPort ws = (''127.0.0.1'', 51820))
   \<and> (TrimSpace ws = [] \<longrightarrow> parseEndpointHostPort ws = (''127.0.0.1'', 51820))
   \<and> (TrimSpace b \<noteq> [] \<and> CHR '':'' \<notin> set (TrimSpace b)
        \<longrightarrow> parseEndpointHostPort b = (TrimSpace b, 51820))
   \<and> parseEndpointHostPort ''192.168.1.1'' = (''192.168.1.1'', 51820)
   \<and> parseEndpointHostPort ''192.168.1.1:51821'' = (''192.168.1.1'', 51821)
   \<and> parseEndpointHostPort ''[::1]:51821'' = (''::1'', 51821)
   \<and> (SplitHostPort (TrimSpace e) = Inr (h, p) \<and> Atoi p = None
        \<longrightarrow> parseEndpointHostPort e
              = (if TrimSpace h = [] then ''127.0.0.1'' else TrimSpace h, 51820))"
proof (intro conjI impI)
  show "parseEndpointHostPort '''' = (''127.0.0.1'', 51820)" by code_simp
  show "parseEndpointHostPort ''192.168.1.1'' = (''192.168.1.1'', 51820)" by code_simp
  show "parseEndpointHostPort ''192.168.1.1:51821'' = (''192.168.1.1'', 51821)" by code_simp
  show "parseEndpointHostPort ''[::1]:51821'' = (''::1'', 51821)" by code_simp
  show "parseEndpointHostPort ws = (''127.0.0.1'', 51820)" if "list_all asciiSpace ws"
    using that parse_blank[of ws] TrimSpace_asciiSpace[of ws] by (simp add: list_all_iff)
  show "parseEndpointHostPort ws = (''127.0.0.1'', 51820)" if "TrimSpace ws = []"
    using that parse_blank[of ws] by blast
  show "parseEndpointHostPort b = (TrimSpace b, 51820)"
    if "TrimSpace b \<noteq> [] \<and> CHR '':'' \<notin> set (TrimSpace b)"
    using that parse_bare[of b] by blast
  show "parseEndpointHostPort e = (if TrimSpace h = [] then ''127.0.0.1'' else TrimSpace h, 51820)"
    if "SplitHostPort (TrimSpace e) = Inr (h, p) \<and> Atoi p = None"
    using that parse_bad_port[of e h p] by blast
qed

theorem parseEndpointHostPort_resolution_witness:
  "list_all asciiSpace ''   '' \<and> parseEndpointHostPort ''   '' = (''127.0.0.1'', 51820)
   \<and> TrimSpace [CHR 0xC2, CHR 0xA0] = [] \<and> parseEndpointHostPort [CHR 0xC2, CHR 0xA0] = (''127.0.0.1'', 51820)
   \<and> TrimSpace ''vpn.example.com'' \<noteq> [] \<and> CHR '':'' \<notin> set (TrimSpace ''vpn.example.com'')
   \<and> parseEndpointHostPort ''vpn.example.com'' = (''vpn.example.com'', 51820)
   \<and> SplitHostPort (TrimSpace ''10.0.0.1:http'') = Inr (''10.0.0.1'', ''http'') \<and> Atoi ''http'' = None
   \<and> parseEndpointHostPort ''10.0.0.1:http'' = (''10.0.0.1'', 51820)"
proof -
  have a: "list_all asciiSpace ''   ''" by (simp add: asciiSpace_def)
  have b: "TrimSpace [CHR 0xC2, CHR 0xA0] = []" by code_simp
  have c: "TrimSpace ''vpn.example.com'' = ''vpn.example.com''" by code_simp
  have c1: "TrimSpace ''vpn.example.com'' \<noteq> []" by code_simp
  have c2: "CHR '':'' \<notin> set (TrimSpace ''vpn.example.com'')" by code_simp
  have d: "SplitHostPort (TrimSpace ''10.0.0.1:http'') = Inr (''10.0.0.1'', ''http'')" by code_simp
  have e: "Atoi ''http'' = None" by code_simp
  have f: "TrimSpace ''10.0.0.1'' = ''10.0.0.1''" by code_simp
  note t = parseEndpointHostPort_resolution
    [of "''   ''" "''vpn.example.com''" "''10.0.0.1:http''" "''10.0.0.1''" "''http''"]
  note u = parseEndpointHostPort_resolution
    [of "[CHR 0xC2, CHR 0xA0]" "''vpn.example.com''" "''10.0.0.1:http''" "''10.0.0.1''" "''http''"]
  from t a have 1: "parseEndpointHostPort ''   '' = (''127.0.0.1'', 51820)" by blast
  from u b have 2: "parseEndpointHostPort [CHR 0xC2, CHR 0xA0] = (''127.0.0.1'', 51820)" by blast
  from t c1 c2 have "parseEndpointHostPort ''vpn.example.com'' = (TrimSpace ''vpn.example.com'', 51820)"
    by blast
  then have 3: "parseEndpointHostPort ''vpn.example.com'' = (''vpn.example.com'', 51820)"
    by (simp only: c)
  from t d e have "parseEndpointHostPort ''10.0.0.1:http''
      = (if TrimSpace ''10.0.0.1'' = [] then ''127.0.0.1'' else TrimSpace ''10.0.0.1'', 51820)"
    by blast
  then have 4: "parseEndpointHostPort ''10.0.0.1:http'' = (''10.0.0.1'', 51820)"
    by (simp add: f)
  show ?thesis by (intro conjI a 1 b 2 c1 c2 3 d e 4)
qed


section \<open>Interface events and the configuration files\<close>

lemma PersistInterfaceConfig_writes:
  assumes "wg_GetInterfaceAndPeers m ident = Some (iface, peers)"
    and "tpl_GetInterfaceConfig m iface peers = Some cfg"
  shows "CallWriteFile (GetConfigFileName m iface) cfg \<in> set (fst (PersistInterfaceConfig m ident))"
  using assms by (simp add: PersistInterfaceConfig_def)

lemma saved_event_writes_when_enabled:
  assumes "SaveConfig iface"
    and "wg_GetInterfaceAndPeers m (iface_Identifier iface) = Some (iface', peers)"
    and "tpl_GetInterfaceConfig m iface' peers = Some cfg"
  shows "\<exists>e \<in> set (handleInterfaceSavedEvent m iface). touchesFiles e"
  using assms
  by (auto simp: handleInterfaceSavedEvent_def PersistInterfaceConfig_def touchesFiles_def)

lemma delete_event_deletes_when_enabled:
  assumes "SaveConfig iface"
  shows "CallDeleteFile (GetConfigFileName m iface) \<in> set (handleInterfaceDeleteEvent m iface)"
  using assms by (simp add: handleInterfaceDeleteEvent_def UnpersistInterfaceConfig_def)

text \<open>
  Claim C10. For an interface with \<open>SaveConfig = false\<close>, the handler of the
  interface-created and interface-updated events and the handler of the
  interface-deleted event do nothing at all: their trace is empty, so no collaborator is
  called and no file is written or deleted. The same holds for the three topics as the
  bus delivers them.
\<close>

theorem unsaved_interface_events_touch_nothing:
  "\<not> SaveConfig iface \<Longrightarrow>
     handleInterfaceSavedEvent m iface = [] \<and> handleInterfaceDeleteEvent m iface = []
     \<and> deliver m (TopicInterfaceCreated iface) = []
     \<and> deliver m (TopicInterfaceUpdated iface) = []
     \<and> deliver m (TopicInterfaceDeleted iface) = []
     \<and> (\<forall>ev \<in> {TopicInterfaceCreated iface, TopicInterfaceUpdated iface, TopicInterfaceDeleted iface}.
           \<forall>e \<in> set (deliver m ev). \<not> touchesFiles e)"
  by (simp add: handleInterfaceSavedEvent_def handleInterfaceDeleteEvent_def)

theorem unsaved_interface_events_touch_nothing_witness:
  "\<not> SaveConfig \<lparr>iface_Identifier = ''wg0'', SaveConfig = False\<rparr>
   \<and> handleInterfaceSavedEvent exampleManager \<lparr>iface_Identifier = ''wg0'', SaveConfig = False\<rparr> = []
   \<and> handleInterfaceDeleteEvent exampleManager \<lparr>iface_Identifier = ''wg0'', SaveConfig = False\<rparr> = []
   \<and> handleInterfaceSavedEvent exampleManager \<lparr>iface_Identifier = ''wg0'', SaveConfig = True\<rparr>
       = [LogDebug ''handling interface save event'' ''wg0'', CallGetInterfaceAndPeers ''wg0'',
          CallRenderInterfaceConfig ''wg0'', CallWriteFile ''wg0.conf'' ''[Interface]'']"
proof -
  have h: "\<not> SaveConfig \<lparr>iface_Identifier = ''wg0'', SaveConfig = False\<rparr>" by simp
  have on: "handleInterfaceSavedEvent exampleManager \<lparr>iface_Identifier = ''wg0'', SaveConfig = True\<rparr>
       = [LogDebug ''handling interface save event'' ''wg0'', CallGetInterfaceAndPeers ''wg0'',
          CallRenderInterfaceConfig ''wg0'', CallWriteFile ''wg0.conf'' ''[Interface]'']"
    by (simp add: handleInterfaceSavedEvent_def PersistInterfaceConfig_def exampleManager_def)
  from unsaved_interface_events_touch_nothing [OF h, of exampleManager] h on
  show ?thesis by simp
qed


section \<open>Comma-separated lists and the DNS pair\<close>

lemma collectItems_filter:
  "collectItems items out = out @ filter (\<lambda>item. item \<noteq> []) (map TrimSpace items)"
  by (induction items arbitrary: out) (simp_all add: Let_def)

lemma Split_not_Nil: "Split s sep \<noteq> []"
  by (induction s) (auto split: list.splits)

lemma Split_removeAll_byte:
  "sp \<noteq> sep \<Longrightarrow> Split (removeAll_byte sp s) sep = map (removeAll_byte sp) (Split s sep)"
proof (induction s)
  case Nil
  show ?case by (simp add: removeAll_byte_def)
next
  case (Cons c cs)
  then have ih: "Split (filter (\<lambda>x. x \<noteq> sp) cs) sep = map (filter (\<lambda>x. x \<noteq> sp)) (Split cs sep)"
    by (simp add: removeAll_byte_def)
  obtain p ps where ps: "Split cs sep = p # ps"
    using Split_not_Nil[of cs sep] by (cases "Split cs sep") auto
  show ?case
    using Cons.prems ih ps by (auto simp: removeAll_byte_def)
qed

lemma Split_no_sep: "p \<in> set (Split s sep) \<Longrightarrow> sep \<notin> set p"
proof (induction s arbitrary: p)
  case Nil
  then show ?case by simp
next
  case (Cons c cs)
  obtain q qs where qs: "Split cs sep = q # qs"
    using Split_not_Nil[of cs sep] by (cases "Split cs sep") auto
  show ?case
  proof (cases "c = sep")
    case True
    with Cons show ?thesis by auto
  next
    case False
    with Cons.prems qs have "p = c # q \<or> p \<in> set qs" by auto
    then show ?thesis
    proof
      assume "p = c # q"
      moreover have "sep \<notin> set q" using Cons.IH[of q] qs by simp
      ultimately show ?thesis using False by auto
    next
      assume "p \<in> set qs"
      then show ?thesis using Cons.IH[of p] qs by simp
    qed
  qed
qed

lemma set_stripLeading: "set (stripLeading pats s) \<subseteq> set s"
proof (induction pats s rule: stripLeading.induct)
  case (1 pats s)
  show ?case
  proof (cases "find (startsWith s) pats")
    case None
    then show ?thesis by (subst stripLeading.simps) simp
  next
    case (Some p)
    have "set (stripLeading pats (drop (length p) s)) \<subseteq> set (drop (length p) s)"
      using "1.IH"[OF Some] .
    also have "\<dots> \<subseteq> set s" by (rule set_drop_subset)
    finally show ?thesis using Some by (subst stripLeading.simps) simp
  qed
qed

lemma set_TrimSpace: "set (TrimSpace s) \<subseteq> set s"
proof -
  have "set (trimRight t) \<subseteq> set t" for t
    using set_stripLeading[of "map rev spaceRunes" "rev t"] by (simp add: trimRight_def)
  moreover have "set (trimLeft s) \<subseteq> set s"
    by (simp add: trimLeft_def set_stripLeading)
  ultimately show ?thesis unfolding TrimSpace_def by blast
qed

lemma splitCsvOrDefault_eq:
  "splitCsvOrDefault val fallback =
     (let raw = (if TrimSpace val = [] then fallback else TrimSpace val)
      in if removeAll_byte (CHR '' '') raw = [] then None
         else Some (filter (\<lambda>item. item \<noteq> [])
                      (map (\<lambda>item. TrimSpace (removeAll_byte (CHR '' '') item))
                         (Split raw (CHR '','')))))"
  by (simp add: splitCsvOrDefault_def Let_def collectItems_filter Split_removeAll_byte comp_def)

lemma splitCsvOrDefault_entries:
  "list_all (\<lambda>e. e \<noteq> [] \<and> CHR '' '' \<notin> set e \<and> CHR '','' \<notin> set e)
     (sliceItems (splitCsvOrDefault val fallback))"
proof -
  let ?raw = "removeAll_byte (CHR '' '') (if TrimSpace val = [] then fallback else TrimSpace val)"
  have *: "e \<noteq> [] \<and> CHR '' '' \<notin> set e \<and> CHR '','' \<notin> set e"
    if "e \<in> set (filter (\<lambda>item. item \<noteq> []) (map TrimSpace (Split ?raw (CHR '',''))))" for e
  proof -
    from that obtain p where p: "p \<in> set (Split ?raw (CHR '',''))" and e: "e = TrimSpace p" and ne: "e \<noteq> []"
      by auto
    have "CHR '','' \<notin> set p" using Split_no_sep[OF p] .
    moreover have "CHR '' '' \<notin> set p"
    proof -
      have "CHR '' '' \<in> set q \<Longrightarrow> q \<in> set (Split r (CHR '','')) \<Longrightarrow> CHR '' '' \<in> set r" for q r
      proof (induction r arbitrary: q)
        case Nil
        then show ?case by simp
      next
        case (Cons c cs)
        obtain u us where us: "Split cs (CHR '','') = u # us"
          using Split_not_Nil[of cs "CHR '',''"] by (cases "Split cs (CHR '','')") auto
        show ?case
        proof (cases "c = CHR '',''")
          case True
          with Cons show ?thesis by auto
        next
          case False
          with Cons.prems us have "q = c # u \<or> q \<in> set us" by auto
          then show ?thesis
          proof
            assume "q = c # u"
            with Cons.prems(1) have "c = CHR '' '' \<or> CHR '' '' \<in> set u" by auto
            then show ?thesis using Cons.IH[of u] us by auto
          next
            assume "q \<in> set us"
            then show ?thesis using Cons.IH[of q] Cons.prems(1) us by auto
          qed
        qed
      qed
      from this[of p ?raw] p show ?thesis by (auto simp: removeAll_byte_def)
    qed
    ultimately show ?thesis using e ne set_TrimSpace[of p] by auto
  qed
  show ?thesis
  proof (cases "?raw = []")
    case True
    then show ?thesis by (simp add: splitCsvOrDefault_def Let_def sliceItems_def)
  next
    case False
    then have eq: "sliceItems (splitCsvOrDefault val fallback)
        = filter (\<lambda>item. item \<noteq> []) (map TrimSpace (Split ?raw (CHR '','')))"
      by (simp add: splitCsvOrDefault_def Let_def sliceItems_def collectItems_filter)
    from * have "list_all (\<lambda>e. e \<noteq> [] \<and> CHR '' '' \<notin> set e \<and> CHR '','' \<notin> set e)
        (filter (\<lambda>item. item \<noteq> []) (map TrimSpace (Split ?raw (CHR '',''))))"
      unfolding list_all_iff by blast
    then show ?thesis by (simp only: eq)
  qed
qed

lemma pickDnsServers_first_two:
  "sliceItems (splitCsvOrDefault dns ''1.1.1.1,1.0.0.1'') = a # b # rest \<Longrightarrow> pickDnsServers dns = (a, b)"
  by (simp add: pickDnsServers_def Let_def)

text \<open>
  Claim C6, as amended. \<^verbatim>\<open>splitCsvOrDefault\<close> takes the fallback when the input is empty
  or white space only, removes every space character of the string (also those inside
  an entry), splits at the commas, trims each piece and drops the empty ones: each
  entry of the result is the corresponding input entry with all its space characters
  removed and the remaining surrounding white space trimmed, so no entry is empty or
  holds a space or a comma. \<^verbatim>\<open>pickDnsServers\<close> maps \<open>""\<close> to
  \<open>("1.1.1.1", "1.0.0.1")\<close>, \<open>"8.8.8.8"\<close> to \<open>("8.8.8.8", "1.0.0.1")\<close>,
  \<open>"8.8.8.8,8.8.4.4"\<close> to \<open>("8.8.8.8", "8.8.4.4")\<close>, and returns the first two entries
  whatever follows them.
\<close>

theorem splitCsvOrDefault_removes_all_spaces:
  "splitCsvOrDefault val fallback =
     (let raw = (if TrimSpace val = [] then fallback else TrimSpace val)
      in if removeAll_byte (CHR '' '') raw = [] then None
         else Some (filter (\<lambda>item. item \<noteq> [])
                      (map (\<lambda>item. TrimSpace (removeAll_byte (CHR '' '') item))
                         (Split raw (CHR '','')))))
   \<and> list_all (\<lambda>e. e \<noteq> [] \<and> CHR '' '' \<notin> set e \<and> CHR '','' \<notin> set e)
        (sliceItems (splitCsvOrDefault val fallback))
   \<and> pickDnsServers '''' = (''1.1.1.1'', ''1.0.0.1'')
   \<and> pickDnsServers ''8.8.8.8'' = (''8.8.8.8'', ''1.0.0.1'')
   \<and> pickDnsServers ''8.8.8.8,8.8.4.4'' = (''8.8.8.8'', ''8.8.4.4'')
   \<and> (sliceItems (splitCsvOrDefault dns ''1.1.1.1,1.0.0.1'') = a # b # rest
        \<longrightarrow> pickDnsServers dns = (a, b))"
proof (intro conjI impI)
  show "pickDnsServers '''' = (''1.1.1.1'', ''1.0.0.1'')" by code_simp
  show "pickDnsServers ''8.8.8.8'' = (''8.8.8.8'', ''1.0.0.1'')" by code_simp
  show "pickDnsServers ''8.8.8.8,8.8.4.4'' = (''8.8.8.8'', ''8.8.4.4'')" by code_simp
  show "pickDnsServers dns = (a, b)"
    if "sliceItems (splitCsvOrDefault dns ''1.1.1.1,1.0.0.1'') = a # b # rest"
    using that by (rule pickDnsServers_first_two)
qed (rule splitCsvOrDefault_eq splitCsvOrDefault_entries)+

theorem splitCsvOrDefault_removes_all_spaces_witness:
  "splitCsvOrDefault '' 10.0.0.0/8 , , fd00:: /8 '' ''0.0.0.0/0,::/0'' = Some [''10.0.0.0/8'', ''fd00::/8'']
   \<and> splitCsvOrDefault ''   '' ''0.0.0.0/0,::/0'' = Some [''0.0.0.0/0'', ''::/0'']
   \<and> sliceItems (splitCsvOrDefault ''1.1.1.1,8.8.8.8,9.9.9.9'' ''1.1.1.1,1.0.0.1'')
       = ''1.1.1.1'' # ''8.8.8.8'' # [''9.9.9.9'']
   \<and> pickDnsServers ''1.1.1.1,8.8.8.8,9.9.9.9'' = (''1.1.1.1'', ''8.8.8.8'')"
proof -
  have s: "sliceItems (splitCsvOrDefault ''1.1.1.1,8.8.8.8,9.9.9.9'' ''1.1.1.1,1.0.0.1'')
       = ''1.1.1.1'' # ''8.8.8.8'' # [''9.9.9.9'']" by code_simp
  have a: "splitCsvOrDefault '' 10.0.0.0/8 , , fd00:: /8 '' ''0.0.0.0/0,::/0'' = Some [''10.0.0.0/8'', ''fd00::/8'']"
    by code_simp
  have b: "splitCsvOrDefault ''   '' ''0.0.0.0/0,::/0'' = Some [''0.0.0.0/0'', ''::/0'']"
    by code_simp
  note t = splitCsvOrDefault_removes_all_spaces
    [of "''   ''" "''0.0.0.0/0,::/0''" "''1.1.1.1,8.8.8.8,9.9.9.9''" "''1.1.1.1''" "''8.8.8.8''" "[''9.9.9.9'']"]
  from t s have p: "pickDnsServers ''1.1.1.1,8.8.8.8,9.9.9.9'' = (''1.1.1.1'', ''8.8.8.8'')"
    by blast
  show ?thesis by (intro conjI a b s p)
qed

text \<open>
  Claim C6 as stated fails: for \<open>"a b,c"\<close> the entries trimmed of their surrounding white
  space are \<open>"a b"\<close> and \<open>"c"\<close>, but the function returns \<open>"ab"\<close> and \<open>"c"\<close>.
\<close>

theorem splitCsvOrDefault_interior_space_counterexample:
  "splitCsvOrDefault ''a b,c'' ''x'' = Some [''ab'', ''c'']
   \<and> filter (\<lambda>item. item \<noteq> []) (map TrimSpace (Split ''a b,c'' (CHR '',''))) = [''a b'', ''c'']"
  by code_simp



section \<open>The binary frame\<close>

lemma of_char_char_of_nat: "(of_char (char_of (n :: nat)) :: nat) = n mod 256"
  by (simp add: of_char_of)

lemma Uint32_PutUint32:
  assumes "v < 2 ^ 32"
  shows "Uint32 (PutUint32 v) = v"
proof -
  define a where "a = v div 256"
  define b where "b = a div 256"
  define c where "c = b div 256"
  have v: "v = 256 * a + v mod 256" unfolding a_def by simp
  have a: "a = 256 * b + a mod 256" unfolding b_def by simp
  have b: "b = 256 * c + b mod 256" unfolding c_def by simp
  have d8: "v div 256 = a" unfolding a_def by simp
  have d16: "v div 65536 = b" unfolding b_def a_def by (simp add: div_mult2_eq)
  have d24: "v div 16777216 = c" unfolding c_def b_def a_def by (simp add: div_mult2_eq)
  have "v < 256 * 16777216" using assms by simp
  then have c256: "c < 256" unfolding d24[symmetric] by (simp add: less_mult_imp_div_less)
  have s: "c * 16777216 + (b mod 256) * 65536 + (a mod 256) * 256 + v mod 256 = v"
    using v a b by linarith
  have "Uint32 (PutUint32 v) = c mod 256 * 16777216 + (b mod 256) * 65536 + (a mod 256) * 256 + v mod 256"
    unfolding Uint32_def PutUint32_def by (simp add: d8 d16 d24)
  also have "\<dots> = v" using s c256 by simp
  finally show ?thesis .
qed

lemma length_PutUint32: "length (PutUint32 v) = 4"
  by (simp add: PutUint32_def)

lemma zlibLevelClass_cases:
  "zlibLevelClass level = 0 \<or> zlibLevelClass level = 1 \<or> zlibLevelClass level = 2 \<or> zlibLevelClass level = 3"
  by (simp add: zlibLevelClass_def)

lemma zlibRead_zlibHeader:
  assumes "inflate body = Some (d, rest)" and "take 4 rest = PutUint32 (adler32 d)" and "4 \<le> length rest"
  shows "zlibRead inflate (zlibHeader level @ body) = Some d"
  using zlibLevelClass_cases[of level] assms
  by (elim disjE) (simp_all add: zlibRead_def zlibHeader_def Let_def)

lemma qtQCompress_valid:
  "- 2 \<le> level \<Longrightarrow> level \<le> 9 \<Longrightarrow>
     qtQCompress deflate d level
       = Inr (PutUint32 (length d mod 2 ^ 32) @ zlibHeader level @ deflate level d @ PutUint32 (adler32 d))"
  by (simp add: qtQCompress_def Let_def)

text \<open>
  Claim C1, as amended. For every byte sequence \<open>d\<close> and every level from -2 to 9,
  \<^verbatim>\<open>qtQCompress\<close> returns a byte sequence whose first four bytes are the big-endian
  encoding of \<open>len(d)\<close> reduced to 32 bits, and whose remaining bytes are a zlib stream
  (RFC 1950): the two-byte zlib header for the level, the deflate stream of \<open>d\<close> and the
  big-endian Adler-32 checksum of \<open>d\<close>. A zlib reader whose deflate decoder inverts the
  compressor on \<open>d\<close> reads exactly \<open>d\<close> back from the bytes after offset 4.
\<close>

theorem qtQCompress_frames_a_zlib_stream:
  "- 2 \<le> level \<and> level \<le> 9 \<longrightarrow>
     (\<exists>out. qtQCompress deflate d level = Inr out
        \<and> take 4 out = PutUint32 (length d mod 2 ^ 32)
        \<and> Uint32 (take 4 out) = length d mod 2 ^ 32
        \<and> drop 4 out = zlibHeader level @ deflate level d @ PutUint32 (adler32 d)
        \<and> (inflate (deflate level d @ PutUint32 (adler32 d)) = Some (d, PutUint32 (adler32 d))
             \<longrightarrow> zlibRead inflate (drop 4 out) = Some d))"
proof (intro impI)
  assume lv: "- 2 \<le> level \<and> level \<le> 9"
  let ?out = "PutUint32 (length d mod 2 ^ 32) @ zlibHeader level @ deflate level d @ PutUint32 (adler32 d)"
  have q: "qtQCompress deflate d level = Inr ?out" using lv by (simp add: qtQCompress_valid)
  have t: "take 4 ?out = PutUint32 (length d mod 2 ^ 32)" by (simp add: length_PutUint32)
  have u: "Uint32 (take 4 ?out) = length d mod 2 ^ 32"
    unfolding t by (rule Uint32_PutUint32) simp
  have dr: "drop 4 ?out = zlibHeader level @ deflate level d @ PutUint32 (adler32 d)"
    by (simp add: length_PutUint32)
  have z: "zlibRead inflate (drop 4 ?out) = Some d"
    if "inflate (deflate level d @ PutUint32 (adler32 d)) = Some (d, PutUint32 (adler32 d))"
    unfolding dr using that by (rule zlibRead_zlibHeader) (simp_all add: length_PutUint32)
  show "\<exists>out. qtQCompress deflate d level = Inr out
        \<and> take 4 out = PutUint32 (length d mod 2 ^ 32)
        \<and> Uint32 (take 4 out) = length d mod 2 ^ 32
        \<and> drop 4 out = zlibHeader level @ deflate level d @ PutUint32 (adler32 d)
        \<and> (inflate (deflate level d @ PutUint32 (adler32 d)) = Some (d, PutUint32 (adler32 d))
             \<longrightarrow> zlibRead inflate (drop 4 out) = Some d)"
    using q t u dr z by blast
qed

theorem qtQCompress_frames_a_zlib_stream_witness:
  "- 2 \<le> (0::int) \<and> (0::int) \<le> 9
   \<and> inflateStoredOpt (flateStore 0 ''test data for compression'' @ PutUint32 (adler32 ''test data for compression''))
       = Some (''test data for compression'', PutUint32 (adler32 ''test data for compression''))
   \<and> (\<exists>out. qtQCompress flateStore ''test data for compression'' 0 = Inr out
        \<and> Uint32 (take 4 out) = 25
        \<and> zlibRead inflateStoredOpt (drop 4 out) = Some ''test data for compression'')"
proof -
  have lv: "- 2 \<le> (0::int) \<and> (0::int) \<le> 9" by simp
  have i: "inflateStoredOpt (flateStore 0 ''test data for compression'' @ PutUint32 (adler32 ''test data for compression''))
       = Some (''test data for compression'', PutUint32 (adler32 ''test data for compression''))"
    by code_simp
  have l: "length ''test data for compression'' mod 2 ^ 32 = (25::nat)" by simp
  from qtQCompress_frames_a_zlib_stream
    [of 0 flateStore "''test data for compression''" inflateStoredOpt] lv i
  obtain out where "qtQCompress flateStore ''test data for compression'' 0 = Inr out"
    and "Uint32 (take 4 out) = length ''test data for compression'' mod 2 ^ 32"
    and "zlibRead inflateStoredOpt (drop 4 out) = Some ''test data for compression''"
    by blast
  then have "\<exists>out. qtQCompress flateStore ''test data for compression'' 0 = Inr out
        \<and> Uint32 (take 4 out) = 25
        \<and> zlibRead inflateStoredOpt (drop 4 out) = Some ''test data for compression''"
    unfolding l by blast
  with lv i show ?thesis by blast
qed

text \<open>
  Claim C1 as stated fails: the bytes after offset 4 are not a raw deflate stream. For
  the empty input the frame is four zero bytes followed by \<open>78 01 01 00 00 FF FF 00 00 00 01\<close>;
  the deflate stream itself, \<open>01 00 00 FF FF\<close>, decodes to the empty input, but a raw
  deflate decoder started at offset 4 reads \<open>78\<close> as the header of a stored block whose
  length fields \<open>01 01\<close> and \<open>00 00\<close> do not match, and stops with an error.
\<close>

theorem qtQCompress_raw_deflate_counterexample:
  "qtQCompress flateStore [] 0
     = Inr [CHR 0x00, CHR 0x00, CHR 0x00, CHR 0x00, CHR 0x78, CHR 0x01,
            CHR 0x01, CHR 0x00, CHR 0x00, CHR 0xFF, CHR 0xFF, CHR 0x00, CHR 0x00, CHR 0x00, CHR 0x01]
   \<and> inflateStored [] (flateStore 0 []) = Inr ([], [])
   \<and> inflateStored [] [CHR 0x78, CHR 0x01,
            CHR 0x01, CHR 0x00, CHR 0x00, CHR 0xFF, CHR 0xFF, CHR 0x00, CHR 0x00, CHR 0x00, CHR 0x01]
       = Inl CorruptInput"
  by code_simp


section \<open>The keys of the envelope\<close>

lemma digitsOf_not_Nil: "digitsOf n \<noteq> []"
  by (subst digitsOf.simps) simp

lemma Itoa_not_Nil: "Itoa i \<noteq> []"
  by (simp add: Itoa_def digitsOf_not_Nil)

lemma u16ToStringOptional_empty: "u16ToStringOptional v = [] \<longleftrightarrow> v = 0"
  by (simp add: u16ToStringOptional_def Itoa_not_Nil)

lemma trimmedOrEmpty_present: "trimmedOrEmpty p \<noteq> [] \<longleftrightarrow> junkPacketPresent p"
  by (simp add: trimmedOrEmpty_def junkPacketPresent_def split: option.splits)

lemma key_field: "k \<in> fst ` set (field k' s) \<longleftrightarrow> k = k'"
  by (simp add: field_def)

lemma key_omitempty: "k \<in> fst ` set (omitempty k' s) \<longleftrightarrow> k = k' \<and> s \<noteq> []"
  by (simp add: omitempty_def)

lemma keys_marshalAwgContainer:
  "list_all (\<lambda>k. k \<in> set (objectKeys (marshalAwgContainer c)))
     [''H1'', ''H2'', ''H3'', ''H4'', ''Jc'', ''Jmax'', ''Jmin'', ''S1'', ''S2'']
   \<and> (''S3'' \<in> set (objectKeys (marshalAwgContainer c)) \<longleftrightarrow> awg_S3 c \<noteq> [])
   \<and> (''S4'' \<in> set (objectKeys (marshalAwgContainer c)) \<longleftrightarrow> awg_S4 c \<noteq> [])
   \<and> (''I1'' \<in> set (objectKeys (marshalAwgContainer c)) \<longleftrightarrow> awg_I1 c \<noteq> [])
   \<and> (''I2'' \<in> set (objectKeys (marshalAwgContainer c)) \<longleftrightarrow> awg_I2 c \<noteq> [])
   \<and> (''I3'' \<in> set (objectKeys (marshalAwgContainer c)) \<longleftrightarrow> awg_I3 c \<noteq> [])
   \<and> (''I4'' \<in> set (objectKeys (marshalAwgContainer c)) \<longleftrightarrow> awg_I4 c \<noteq> [])
   \<and> (''I5'' \<in> set (objectKeys (marshalAwgContainer c)) \<longleftrightarrow> awg_I5 c \<noteq> [])"
  by (simp add: marshalAwgContainer_def objectKeys_def key_field key_omitempty image_Un)

lemma keys_marshalLastConfig:
  "list_all (\<lambda>k. k \<in> set (objectKeys (marshalLastConfig c)))
     [''H1'', ''H2'', ''H3'', ''H4'', ''Jc'', ''Jmax'', ''Jmin'', ''S1'', ''S2'']
   \<and> (''S3'' \<in> set (objectKeys (marshalLastConfig c)) \<longleftrightarrow> lc_S3 c \<noteq> [])
   \<and> (''S4'' \<in> set (objectKeys (marshalLastConfig c)) \<longleftrightarrow> lc_S4 c \<noteq> [])
   \<and> (''I1'' \<in> set (objectKeys (marshalLastConfig c)) \<longleftrightarrow> lc_I1 c \<noteq> [])
   \<and> (''I2'' \<in> set (objectKeys (marshalLastConfig c)) \<longleftrightarrow> lc_I2 c \<noteq> [])
   \<and> (''I3'' \<in> set (objectKeys (marshalLastConfig c)) \<longleftrightarrow> lc_I3 c \<noteq> [])
   \<and> (''I4'' \<in> set (objectKeys (marshalLastConfig c)) \<longleftrightarrow> lc_I4 c \<noteq> [])
   \<and> (''I5'' \<in> set (objectKeys (marshalLastConfig c)) \<longleftrightarrow> lc_I5 c \<noteq> [])"
  by (simp add: marshalLastConfig_def objectKeys_def key_field key_omitempty image_Un)

lemma awgOfEnvelope_envelopeOf:
  "awgOfEnvelope (marshalEnvelope (envelopeOf peer description lastCfgJSON))
     = Some (marshalAwgContainer (Awg (hd (Containers (envelopeOf peer description lastCfgJSON)))))"
  by (simp add: awgOfEnvelope_def member_def marshalEnvelope_def marshalContainer_def envelopeOf_def
        Let_def field_def split: prod.splits)

lemma envelope_optional_fields:
  fixes peer :: Peer and description lastCfgJSON :: string
  defines "c \<equiv> Awg (hd (Containers (envelopeOf peer description lastCfgJSON)))"
  assumes "if_AdvancedSecurity (Interface peer) = Some a"
  shows "awg_S3 c = u16ToStringOptional (CookieReplyPacketJunkSize a)"
    and "awg_S4 c = u16ToStringOptional (TransportPacketJunkSize a)"
    and "awg_I1 c = trimmedOrEmpty (FirstSpecialJunkPacket a)"
    and "awg_I2 c = trimmedOrEmpty (SecondSpecialJunkPacket a)"
    and "awg_I3 c = trimmedOrEmpty (ThirdSpecialJunkPacket a)"
    and "awg_I4 c = trimmedOrEmpty (FourthSpecialJunkPacket a)"
    and "awg_I5 c = trimmedOrEmpty (FifthSpecialJunkPacket a)"
  using assms(2) unfolding c_def
  by (simp_all add: envelopeOf_def Let_def amneziaAwgExtendedParams_def split: prod.splits)

lemma lastConfig_optional_fields:
  fixes peer :: Peer and pk :: "string \<Rightarrow> string" and configText :: string
  defines "c \<equiv> lastConfigOf pk peer configText"
  assumes "if_AdvancedSecurity (Interface peer) = Some a"
  shows "lc_S3 c = u16ToStringOptional (CookieReplyPacketJunkSize a)"
    and "lc_S4 c = u16ToStringOptional (TransportPacketJunkSize a)"
    and "lc_I1 c = trimmedOrEmpty (FirstSpecialJunkPacket a)"
    and "lc_I2 c = trimmedOrEmpty (SecondSpecialJunkPacket a)"
    and "lc_I3 c = trimmedOrEmpty (ThirdSpecialJunkPacket a)"
    and "lc_I4 c = trimmedOrEmpty (FourthSpecialJunkPacket a)"
    and "lc_I5 c = trimmedOrEmpty (FifthSpecialJunkPacket a)"
  using assms(2) unfolding c_def
  by (simp_all add: lastConfigOf_def Let_def amneziaAwgExtendedParams_def split: prod.splits)

text \<open>
  Claim C3. In the \<open>awg\<close> object of the outer envelope and in the inner \<open>last_config\<close>
  record that \<^verbatim>\<open>buildAmneziaAwgVpnLink\<close> marshals for a peer whose interface has an
  AdvancedSecurity block, the keys \<open>H1..H4\<close>, \<open>Jc\<close>, \<open>Jmax\<close>, \<open>Jmin\<close>, \<open>S1\<close>, \<open>S2\<close>
  are always present; \<open>S3\<close> (\<open>S4\<close>) is present exactly when the cookie-reply
  (transport) junk size is not zero; \<open>I1..I5\<close> are present exactly when the
  corresponding pointer is set and its trimmed value is not empty.
\<close>

theorem optional_keys_present_iff_set:
  assumes "if_AdvancedSecurity (Interface peer) = Some a"
  shows "(\<exists>awg. awgOfEnvelope (marshalEnvelope (envelopeOf peer description lastCfgJSON)) = Some awg
            \<and> keysAsSpecified a (objectKeys awg))
         \<and> keysAsSpecified a (objectKeys (marshalLastConfig (lastConfigOf pk peer configText)))"
proof -
  let ?c = "Awg (hd (Containers (envelopeOf peer description lastCfgJSON)))"
  have "keysAsSpecified a (objectKeys (marshalAwgContainer ?c))"
    unfolding keysAsSpecified_def
    using keys_marshalAwgContainer[of ?c]
    by (simp only: envelope_optional_fields[OF assms] u16ToStringOptional_empty
          trimmedOrEmpty_present)
  moreover have "keysAsSpecified a (objectKeys (marshalLastConfig (lastConfigOf pk peer configText)))"
    unfolding keysAsSpecified_def
    using keys_marshalLastConfig[of "lastConfigOf pk peer configText"]
    by (simp only: lastConfig_optional_fields[OF assms] u16ToStringOptional_empty
          trimmedOrEmpty_present)
  ultimately show ?thesis by (simp add: awgOfEnvelope_envelopeOf)
qed

theorem optional_keys_present_iff_set_witness:
  "if_AdvancedSecurity (Interface examplePeer) = Some exampleAdv
   \<and> map (\<lambda>k. k \<in> set (objectKeys (marshalLastConfig (lastConfigOf (\<lambda>k. []) examplePeer ''cfg''))))
        [''H1'', ''S2'', ''S3'', ''S4'', ''I1'', ''I2'', ''I3'']
       = [True, True, True, False, False, True, False]
   \<and> keysAsSpecified exampleAdv (objectKeys (marshalLastConfig (lastConfigOf (\<lambda>k. []) examplePeer ''cfg'')))"
proof -
  have h: "if_AdvancedSecurity (Interface examplePeer) = Some exampleAdv"
    by (simp add: examplePeer_def)
  have k: "map (\<lambda>k. k \<in> set (objectKeys (marshalLastConfig (lastConfigOf (\<lambda>k. []) examplePeer ''cfg''))))
        [''H1'', ''S2'', ''S3'', ''S4'', ''I1'', ''I2'', ''I3'']
       = [True, True, True, False, False, True, False]"
    by code_simp
  from optional_keys_present_iff_set[OF h, of "[]" "[]" "\<lambda>k. []" "''cfg''"]
  have "keysAsSpecified exampleAdv (objectKeys (marshalLastConfig (lastConfigOf (\<lambda>k. []) examplePeer ''cfg'')))"
    by blast
  with h k show ?thesis by blast
qed


section \<open>The link\<close>

lemma length_encodeURL: "length encodeURL = 64"
  by (simp add: encodeURL_def)

lemma encodeURL_nth_mem: "k < 64 \<Longrightarrow> encodeURL ! k \<in> set encodeURL"
  by (simp add: length_encodeURL)

lemma sextet_top:
  "((of_char a :: nat) * 65536 + of_char b * 256 + of_char c) div 262144 < 64"
proof -
  have "(of_char a :: nat) < 256" "(of_char b :: nat) < 256" "(of_char c :: nat) < 256" by simp_all
  then have "(of_char a :: nat) * 65536 + of_char b * 256 + of_char c < 64 * 262144" by linarith
  then show ?thesis by (simp add: less_mult_imp_div_less)
qed

lemma sextet_top2: "((of_char a :: nat) * 65536 + of_char b * 256) div 262144 < 64"
proof -
  have "(of_char a :: nat) < 256" "(of_char b :: nat) < 256" by simp_all
  then have "(of_char a :: nat) * 65536 + of_char b * 256 < 64 * 262144" by linarith
  then show ?thesis by (simp add: less_mult_imp_div_less)
qed

lemma sextet_top1: "((of_char a :: nat) * 65536) div 262144 < 64"
proof -
  have "(of_char a :: nat) < 256" by simp
  then have "(of_char a :: nat) * 65536 < 64 * 262144" by linarith
  then show ?thesis by (simp add: less_mult_imp_div_less)
qed

lemma sextet_top1': "(of_char a :: nat) div 4 < 64"
proof -
  have "(of_char a :: nat) < 4 * 64" by simp
  then show ?thesis by (simp only: less_mult_imp_div_less)
qed

lemma EncodeToString_alphabet: "list_all (\<lambda>ch. ch \<in> set encodeURL) (EncodeToString bs)"
  by (induction bs rule: EncodeToString.induct)
     (simp_all add: Let_def encodeURL_nth_mem sextet_top sextet_top2 sextet_top1 sextet_top1')

lemma EncodeToString_length: "length (EncodeToString bs) = (4 * length bs + 2) div 3"
  by (induction bs rule: EncodeToString.induct) (simp_all add: Let_def)

lemma no_padding: "CHR ''='' \<notin> set encodeURL"
  by (simp add: encodeURL_def)

lemma build_nil: "buildAmneziaAwgVpnLink pk quote deflate None description configText = Inl NilPeer"
  by (simp add: buildAmneziaAwgVpnLink_def)

lemma build_missing:
  "if_AdvancedSecurity (Interface peer) = None \<Longrightarrow>
     buildAmneziaAwgVpnLink pk quote deflate (Some peer) description configText = Inl MissingAdvancedSecurity"
  by (simp add: buildAmneziaAwgVpnLink_def)

lemma build_ok:
  assumes "if_AdvancedSecurity (Interface peer) = Some a"
  shows "buildAmneziaAwgVpnLink pk quote deflate (Some peer) description configText
     = Inr (''vpn://'' @ EncodeToString
         (PutUint32 (length (envelopeBytes pk quote peer description configText) mod 2 ^ 32)
            @ zlibHeader 8 @ deflate 8 (envelopeBytes pk quote peer description configText)
            @ PutUint32 (adler32 (envelopeBytes pk quote peer description configText))))"
  using assms by (simp add: buildAmneziaAwgVpnLink_def envelopeBytes_def Let_def qtQCompress_def)

text \<open>
  Claim C2. \<^verbatim>\<open>buildAmneziaAwgVpnLink\<close> returns an error exactly when the peer is nil or
  its interface has no AdvancedSecurity block (the nil-peer and the
  missing-advanced-security error respectively). For every peer with a block it returns
  \<open>"vpn://"\<close> followed by the base64 text of the framed envelope, that is of what
  \<^verbatim>\<open>qtQCompress\<close> returns at level 8 for the envelope's JSON bytes; the text uses the
  URL-safe alphabet only, has no padding character and \<open>\<lceil>4n/3\<rceil>\<close> characters for \<open>n\<close>
  bytes.
\<close>

theorem buildAmneziaAwgVpnLink_errors_and_link:
  "(isl (buildAmneziaAwgVpnLink pk quote deflate peer0 description configText)
      \<longleftrightarrow> (case peer0 of None \<Rightarrow> True | Some peer \<Rightarrow> if_AdvancedSecurity (Interface peer) = None))
   \<and> buildAmneziaAwgVpnLink pk quote deflate None description configText = Inl NilPeer
   \<and> (if_AdvancedSecurity (Interface peer) = None \<longrightarrow>
        buildAmneziaAwgVpnLink pk quote deflate (Some peer) description configText
          = Inl MissingAdvancedSecurity)
   \<and> (if_AdvancedSecurity (Interface peer) \<noteq> None \<longrightarrow>
        (\<exists>framed. qtQCompress deflate (envelopeBytes pk quote peer description configText) 8 = Inr framed
           \<and> buildAmneziaAwgVpnLink pk quote deflate (Some peer) description configText
               = Inr (''vpn://'' @ EncodeToString framed)
           \<and> list_all (\<lambda>ch. ch \<in> set encodeURL) (EncodeToString framed)
           \<and> CHR ''='' \<notin> set (EncodeToString framed)
           \<and> length (EncodeToString framed) = (4 * length framed + 2) div 3))"
proof (intro conjI impI)
  show "isl (buildAmneziaAwgVpnLink pk quote deflate peer0 description configText)
      \<longleftrightarrow> (case peer0 of None \<Rightarrow> True | Some peer \<Rightarrow> if_AdvancedSecurity (Interface peer) = None)"
  proof (cases peer0)
    case None
    then show ?thesis by (simp add: build_nil)
  next
    case (Some p)
    show ?thesis
    proof (cases "if_AdvancedSecurity (Interface p)")
      case None
      with Some show ?thesis by (simp add: build_missing)
    next
      case (Some a)
      with \<open>peer0 = Some p\<close> show ?thesis by (simp add: build_ok)
    qed
  qed
  show "buildAmneziaAwgVpnLink pk quote deflate None description configText = Inl NilPeer"
    by (rule build_nil)
  show "buildAmneziaAwgVpnLink pk quote deflate (Some peer) description configText
          = Inl MissingAdvancedSecurity" if "if_AdvancedSecurity (Interface peer) = None"
    using that by (rule build_missing)
  show "\<exists>framed. qtQCompress deflate (envelopeBytes pk quote peer description configText) 8 = Inr framed
           \<and> buildAmneziaAwgVpnLink pk quote deflate (Some peer) description configText
               = Inr (''vpn://'' @ EncodeToString framed)
           \<and> list_all (\<lambda>ch. ch \<in> set encodeURL) (EncodeToString framed)
           \<and> CHR ''='' \<notin> set (EncodeToString framed)
           \<and> length (EncodeToString framed) = (4 * length framed + 2) div 3"
    if "if_AdvancedSecurity (Interface peer) \<noteq> None"
  proof -
    from that obtain a where a: "if_AdvancedSecurity (Interface peer) = Some a" by auto
    let ?env = "envelopeBytes pk quote peer description configText"
    let ?framed = "PutUint32 (length ?env mod 2 ^ 32) @ zlibHeader 8 @ deflate 8 ?env @ PutUint32 (adler32 ?env)"
    have q: "qtQCompress deflate ?env 8 = Inr ?framed" by (simp add: qtQCompress_def Let_def)
    have b: "buildAmneziaAwgVpnLink pk quote deflate (Some peer) description configText
               = Inr (''vpn://'' @ EncodeToString ?framed)"
      by (rule build_ok[OF a])
    have al: "list_all (\<lambda>ch. ch \<in> set encodeURL) (EncodeToString ?framed)"
      by (rule EncodeToString_alphabet)
    have np: "CHR ''='' \<notin> set (EncodeToString ?framed)"
      using al no_padding unfolding list_all_iff by blast
    have ln: "length (EncodeToString ?framed) = (4 * length ?framed + 2) div 3"
      by (rule EncodeToString_length)
    from q b al np ln show ?thesis by blast
  qed
qed

theorem buildAmneziaAwgVpnLink_errors_and_link_witness:
  "if_AdvancedSecurity (Interface examplePeer) \<noteq> None
   \<and> if_AdvancedSecurity (Interface (examplePeer\<lparr>Interface := (Interface examplePeer)\<lparr>if_AdvancedSecurity := None\<rparr>\<rparr>)) = None
   \<and> buildAmneziaAwgVpnLink (\<lambda>k. []) exampleQuote flateStore
        (Some (examplePeer\<lparr>Interface := (Interface examplePeer)\<lparr>if_AdvancedSecurity := None\<rparr>\<rparr>)) ''d'' ''c''
       = Inl MissingAdvancedSecurity
   \<and> \<not> isl (buildAmneziaAwgVpnLink (\<lambda>k. []) exampleQuote flateStore (Some examplePeer) ''d'' ''c'')
   \<and> (\<exists>framed. buildAmneziaAwgVpnLink (\<lambda>k. []) exampleQuote flateStore (Some examplePeer) ''d'' ''c''
          = Inr (''vpn://'' @ EncodeToString framed))"
proof -
  have h: "if_AdvancedSecurity (Interface examplePeer) \<noteq> None" by (simp add: examplePeer_def)
  have n: "if_AdvancedSecurity (Interface (examplePeer\<lparr>Interface := (Interface examplePeer)\<lparr>if_AdvancedSecurity := None\<rparr>\<rparr>)) = None"
    by simp
  note t = buildAmneziaAwgVpnLink_errors_and_link
    [of "\<lambda>k. []" exampleQuote flateStore "Some examplePeer" "''d''" "''c''" examplePeer]
  note u = buildAmneziaAwgVpnLink_errors_and_link
    [of "\<lambda>k. []" exampleQuote flateStore "None" "''d''" "''c''"
        "examplePeer\<lparr>Interface := (Interface examplePeer)\<lparr>if_AdvancedSecurity := None\<rparr>\<rparr>"]
  from u n have m: "buildAmneziaAwgVpnLink (\<lambda>k. []) exampleQuote flateStore
        (Some (examplePeer\<lparr>Interface := (Interface examplePeer)\<lparr>if_AdvancedSecurity := None\<rparr>\<rparr>)) ''d'' ''c''
       = Inl MissingAdvancedSecurity" by blast
  from t[THEN conjunct1] have "isl (buildAmneziaAwgVpnLink (\<lambda>k. []) exampleQuote flateStore (Some examplePeer) ''d'' ''c'')
      \<longleftrightarrow> if_AdvancedSecurity (Interface examplePeer) = None"
    by (simp only: option.case)
  with h have i: "\<not> isl (buildAmneziaAwgVpnLink (\<lambda>k. []) exampleQuote flateStore (Some examplePeer) ''d'' ''c'')"
    by simp
  from t[THEN conjunct2, THEN conjunct2, THEN conjunct2, THEN mp, OF h]
  obtain framed where "buildAmneziaAwgVpnLink (\<lambda>k. []) exampleQuote flateStore (Some examplePeer) ''d'' ''c''
          = Inr (''vpn://'' @ EncodeToString framed)"
    by auto
  then have e: "\<exists>framed. buildAmneziaAwgVpnLink (\<lambda>k. []) exampleQuote flateStore (Some examplePeer) ''d'' ''c''
          = Inr (''vpn://'' @ EncodeToString framed)"
    by (rule exI)
  show ?thesis by (intro conjI h n m i e)
qed



section \<open>Validation of the obfuscation parameters\<close>

lemma validateAwgUint32IfSet_kind:
  "validateAwgUint32IfSet fld raw = Some e \<Longrightarrow> e = NotUint32 fld"
  by (auto simp: validateAwgUint32IfSet_def Let_def split: if_splits sum.splits)

lemma magicHeaderCheck_kind:
  "magicHeaderCheck fld s = Some e \<Longrightarrow> \<exists>f. e = NotUint32 f"
  by (auto simp: magicHeaderCheck_def split: option.splits dest: validateAwgUint32IfSet_kind)

lemma validateAwgStringPtr_kind:
  "validateAwgStringPtr fld raw = (p, Some e) \<Longrightarrow> e = StringEmpty fld \<or> e = StringTooLong fld"
  by (auto simp: validateAwgStringPtr_def Let_def split: option.splits if_splits)

lemma validateAwgStringPtr_value:
  "validateAwgStringPtr fld raw = (p, e) \<Longrightarrow>
     (e = None \<longrightarrow> p = map_option TrimSpace raw) \<and> (e \<noteq> None \<longrightarrow> p = raw)"
  by (auto simp: validateAwgStringPtr_def Let_def split: option.splits if_splits)

lemma specialJunkCheck_kind:
  "specialJunkCheck fld s = (s', Some e) \<Longrightarrow> \<exists>f. e = StringEmpty f \<or> e = StringTooLong f"
  unfolding specialJunkCheck_def
  by (auto split: prod.splits option.splits dest!: validateAwgStringPtr_kind)

lemma junkPacketCheck_error:
  "snd (junkPacketCheck fld s) \<noteq> None \<longleftrightarrow>
     0 < JunkPacketCount s
     \<and> (JunkPacketMinSize s = 0 \<or> JunkPacketMaxSize s = 0 \<or> JunkPacketMaxSize s < JunkPacketMinSize s)"
  by (simp add: junkPacketCheck_def)

lemma junkPacketCheck_kind:
  "junkPacketCheck fld s = (ws, Some e) \<Longrightarrow> isJunkRangeError e"
  by (auto simp: junkPacketCheck_def isJunkRangeError_def split: if_splits)

lemma junkPacketCheck_warning:
  "JunkPacketCount s = 0 \<Longrightarrow> JunkPacketMinSize s \<noteq> 0 \<or> JunkPacketMaxSize s \<noteq> 0 \<Longrightarrow>
     junkPacketCheck fld s = ([WarnJunkDisabled fld], None)"
  by (simp add: junkPacketCheck_def)

lemma validate_junk_error:
  "snd (junkPacketCheck fld s) \<noteq> None \<Longrightarrow>
     \<exists>e. snd (snd (validateAdvancedSecurity fld s)) = Some e \<and> isJunkRangeError e"
  by (cases "junkPacketCheck fld s")
     (auto simp: validateAdvancedSecurity_def dest: junkPacketCheck_kind)

lemma validate_after_junk:
  "snd (junkPacketCheck fld s) = None \<Longrightarrow>
     validateAdvancedSecurity fld s =
       (case magicHeaderCheck fld s of
          Some e \<Rightarrow> (s, fst (junkPacketCheck fld s), Some e)
        | None \<Rightarrow> (fst (specialJunkCheck fld s), fst (junkPacketCheck fld s), snd (specialJunkCheck fld s)))"
  by (cases "junkPacketCheck fld s")
     (auto simp: validateAdvancedSecurity_def split: option.splits prod.splits)

lemma validate_error_is_junk_iff:
  "(\<exists>e. snd (snd (validateAdvancedSecurity fld s)) = Some e \<and> isJunkRangeError e)
     \<longleftrightarrow> snd (junkPacketCheck fld s) \<noteq> None"
proof
  assume "snd (junkPacketCheck fld s) \<noteq> None"
  then show "\<exists>e. snd (snd (validateAdvancedSecurity fld s)) = Some e \<and> isJunkRangeError e"
    by (rule validate_junk_error)
next
  assume l: "\<exists>e. snd (snd (validateAdvancedSecurity fld s)) = Some e \<and> isJunkRangeError e"
  show "snd (junkPacketCheck fld s) \<noteq> None"
  proof
    assume n: "snd (junkPacketCheck fld s) = None"
    from l obtain e where e: "snd (snd (validateAdvancedSecurity fld s)) = Some e" and j: "isJunkRangeError e"
      by blast
    show False
    proof (cases "magicHeaderCheck fld s")
      case (Some e')
      with e n have "e = e'" by (simp add: validate_after_junk)
      with magicHeaderCheck_kind[OF Some] j show False by (auto simp: isJunkRangeError_def)
    next
      case None
      with e n have "snd (specialJunkCheck fld s) = Some e" by (simp add: validate_after_junk)
      then have "specialJunkCheck fld s = (fst (specialJunkCheck fld s), Some e)"
        by (metis prod.collapse)
      from specialJunkCheck_kind[OF this] j show False by (auto simp: isJunkRangeError_def)
    qed
  qed
qed

text \<open>
  Claim C4, as amended. For a block with \<open>JunkPacketCount > 0\<close>, validation fails with a
  junk-packet range error exactly when \<open>JunkPacketMinSize = 0\<close> or
  \<open>JunkPacketMaxSize = 0\<close> or \<open>JunkPacketMinSize > JunkPacketMaxSize\<close>; when the magic
  headers and the special junk packets of the block are valid, it fails exactly then.
  For a block with \<open>JunkPacketCount = 0\<close> and a non-zero minimum or maximum size the
  range check logs one warning and raises no error, and validation succeeds when the
  magic headers and the special junk packets are valid.
\<close>

theorem validateAdvancedSecurity_junk_range:
  "(0 < JunkPacketCount s \<longrightarrow>
      ((\<exists>e. snd (snd (validateAdvancedSecurity fld s)) = Some e \<and> isJunkRangeError e)
         \<longleftrightarrow> JunkPacketMinSize s = 0 \<or> JunkPacketMaxSize s = 0
              \<or> JunkPacketMaxSize s < JunkPacketMinSize s))
   \<and> (0 < JunkPacketCount s \<and> magicHeaderCheck fld s = None \<and> snd (specialJunkCheck fld s) = None \<longrightarrow>
      (snd (snd (validateAdvancedSecurity fld s)) \<noteq> None
         \<longleftrightarrow> JunkPacketMinSize s = 0 \<or> JunkPacketMaxSize s = 0
              \<or> JunkPacketMaxSize s < JunkPacketMinSize s))
   \<and> (JunkPacketCount s = 0 \<and> (JunkPacketMinSize s \<noteq> 0 \<or> JunkPacketMaxSize s \<noteq> 0) \<longrightarrow>
        fst (snd (validateAdvancedSecurity fld s)) = [WarnJunkDisabled fld]
        \<and> \<not> (\<exists>e. snd (snd (validateAdvancedSecurity fld s)) = Some e \<and> isJunkRangeError e)
        \<and> (magicHeaderCheck fld s = None \<and> snd (specialJunkCheck fld s) = None
              \<longrightarrow> snd (snd (validateAdvancedSecurity fld s)) = None))"
proof (intro conjI impI)
  assume "0 < JunkPacketCount s"
  then show "(\<exists>e. snd (snd (validateAdvancedSecurity fld s)) = Some e \<and> isJunkRangeError e)
         \<longleftrightarrow> JunkPacketMinSize s = 0 \<or> JunkPacketMaxSize s = 0
              \<or> JunkPacketMaxSize s < JunkPacketMinSize s"
    by (simp only: validate_error_is_junk_iff junkPacketCheck_error) simp
next
  assume a: "0 < JunkPacketCount s \<and> magicHeaderCheck fld s = None \<and> snd (specialJunkCheck fld s) = None"
  show "snd (snd (validateAdvancedSecurity fld s)) \<noteq> None
         \<longleftrightarrow> JunkPacketMinSize s = 0 \<or> JunkPacketMaxSize s = 0
              \<or> JunkPacketMaxSize s < JunkPacketMinSize s"
  proof (cases "snd (junkPacketCheck fld s) = None")
    case True
    with a have "snd (snd (validateAdvancedSecurity fld s)) = None" by (simp add: validate_after_junk)
    moreover from True a have "\<not> (JunkPacketMinSize s = 0 \<or> JunkPacketMaxSize s = 0
              \<or> JunkPacketMaxSize s < JunkPacketMinSize s)"
      using junkPacketCheck_error[of fld s] by simp
    ultimately show ?thesis by simp
  next
    case False
    from validate_junk_error[OF False] have "snd (snd (validateAdvancedSecurity fld s)) \<noteq> None" by auto
    moreover from False have "JunkPacketMinSize s = 0 \<or> JunkPacketMaxSize s = 0
              \<or> JunkPacketMaxSize s < JunkPacketMinSize s"
      using junkPacketCheck_error[of fld s] by simp
    ultimately show ?thesis by simp
  qed
next
  assume b: "JunkPacketCount s = 0 \<and> (JunkPacketMinSize s \<noteq> 0 \<or> JunkPacketMaxSize s \<noteq> 0)"
  then have j: "junkPacketCheck fld s = ([WarnJunkDisabled fld], None)"
    by (simp add: junkPacketCheck_warning)
  then have n: "snd (junkPacketCheck fld s) = None" by simp
  show "fst (snd (validateAdvancedSecurity fld s)) = [WarnJunkDisabled fld]"
    using j by (simp add: validate_after_junk[OF n] split: option.splits)
  show "\<not> (\<exists>e. snd (snd (validateAdvancedSecurity fld s)) = Some e \<and> isJunkRangeError e)"
    using n by (simp only: validate_error_is_junk_iff) simp
  show "snd (snd (validateAdvancedSecurity fld s)) = None"
    if "magicHeaderCheck fld s = None \<and> snd (specialJunkCheck fld s) = None"
    using that by (simp add: validate_after_junk[OF n])
qed


theorem validateAdvancedSecurity_junk_range_witness:
  "0 < JunkPacketCount (exampleBlock\<lparr>JunkPacketMinSize := 100, JunkPacketMaxSize := 50\<rparr>)
   \<and> snd (snd (validateAdvancedSecurity ''f'' (exampleBlock\<lparr>JunkPacketMinSize := 100, JunkPacketMaxSize := 50\<rparr>)))
       = Some (JunkSizesOrder ''f'')
   \<and> 0 < JunkPacketCount exampleBlock \<and> magicHeaderCheck ''f'' exampleBlock = None
   \<and> snd (specialJunkCheck ''f'' exampleBlock) = None
   \<and> snd (snd (validateAdvancedSecurity ''f'' exampleBlock)) = None
   \<and> JunkPacketCount (exampleBlock\<lparr>JunkPacketCount := 0\<rparr>) = 0
   \<and> JunkPacketMinSize (exampleBlock\<lparr>JunkPacketCount := 0\<rparr>) \<noteq> 0
   \<and> snd (validateAdvancedSecurity ''f'' (exampleBlock\<lparr>JunkPacketCount := 0\<rparr>))
       = ([WarnJunkDisabled ''f''], None)"
proof -
  let ?bad = "exampleBlock\<lparr>JunkPacketMinSize := 100, JunkPacketMaxSize := 50\<rparr>"
  let ?off = "exampleBlock\<lparr>JunkPacketCount := 0\<rparr>"
  have a1: "0 < JunkPacketCount ?bad" by (simp add: exampleBlock_def)
  have a2: "snd (snd (validateAdvancedSecurity ''f'' ?bad)) = Some (JunkSizesOrder ''f'')"
    by (simp add: exampleBlock_def validateAdvancedSecurity_def junkPacketCheck_def)
  have b1: "0 < JunkPacketCount exampleBlock" by (simp add: exampleBlock_def)
  have b2: "magicHeaderCheck ''f'' exampleBlock = None" by code_simp
  have b3: "snd (specialJunkCheck ''f'' exampleBlock) = None" by code_simp
  have b4: "\<not> (JunkPacketMinSize exampleBlock = 0 \<or> JunkPacketMaxSize exampleBlock = 0
              \<or> JunkPacketMaxSize exampleBlock < JunkPacketMinSize exampleBlock)"
    by (simp add: exampleBlock_def)
  from validateAdvancedSecurity_junk_range[of exampleBlock "''f''"] b1 b2 b3 b4
  have b5: "snd (snd (validateAdvancedSecurity ''f'' exampleBlock)) = None" by blast
  have c1: "JunkPacketCount ?off = 0" by simp
  have c2: "JunkPacketMinSize ?off \<noteq> 0" by (simp add: exampleBlock_def)
  have c3: "magicHeaderCheck ''f'' ?off = None" by code_simp
  have c4: "snd (specialJunkCheck ''f'' ?off) = None" by code_simp
  from validateAdvancedSecurity_junk_range[of ?off "''f''"] c1 c2 c3 c4
  have "fst (snd (validateAdvancedSecurity ''f'' ?off)) = [WarnJunkDisabled ''f'']"
    and "snd (snd (validateAdvancedSecurity ''f'' ?off)) = None" by blast+
  then have c5: "snd (validateAdvancedSecurity ''f'' ?off) = ([WarnJunkDisabled ''f''], None)"
    by (simp add: prod_eq_iff)
  show ?thesis by (intro conjI a1 a2 b1 b2 b3 b5 c1 c2 c5)
qed

text \<open>
  Claim C4 as stated fails: with \<open>jc = 1\<close>, \<open>jmin = 50\<close>, \<open>jmax = 100\<close> and the magic
  header \<open>h1 = "not-a-number"\<close> validation fails though the range is coherent, and with
  \<open>jc = 0\<close>, \<open>jmin = 50\<close> and the same header it does not succeed.
\<close>

theorem validateAdvancedSecurity_bad_header_counterexample:
  "0 < JunkPacketCount (exampleBlock\<lparr>InitPacketMagicHeader := ''not-a-number''\<rparr>)
   \<and> JunkPacketMinSize (exampleBlock\<lparr>InitPacketMagicHeader := ''not-a-number''\<rparr>) \<noteq> 0
   \<and> JunkPacketMaxSize (exampleBlock\<lparr>InitPacketMagicHeader := ''not-a-number''\<rparr>) \<noteq> 0
   \<and> \<not> JunkPacketMaxSize (exampleBlock\<lparr>InitPacketMagicHeader := ''not-a-number''\<rparr>)
         < JunkPacketMinSize (exampleBlock\<lparr>InitPacketMagicHeader := ''not-a-number''\<rparr>)
   \<and> snd (snd (validateAdvancedSecurity ''f'' (exampleBlock\<lparr>InitPacketMagicHeader := ''not-a-number''\<rparr>)))
       = Some (NotUint32 ''f.init_packet_magic_header (h1)'')
   \<and> JunkPacketCount (exampleBlock\<lparr>JunkPacketCount := 0, InitPacketMagicHeader := ''not-a-number''\<rparr>) = 0
   \<and> JunkPacketMinSize (exampleBlock\<lparr>JunkPacketCount := 0, InitPacketMagicHeader := ''not-a-number''\<rparr>) \<noteq> 0
   \<and> snd (snd (validateAdvancedSecurity ''f''
         (exampleBlock\<lparr>JunkPacketCount := 0, InitPacketMagicHeader := ''not-a-number''\<rparr>)))
       = Some (NotUint32 ''f.init_packet_magic_header (h1)'')"
proof -
  have h: "validateAwgUint32IfSet ''f.init_packet_magic_header (h1)'' ''not-a-number''
      = Some (NotUint32 ''f.init_packet_magic_header (h1)'')"
    by code_simp
  show ?thesis
    by (simp add: exampleBlock_def validateAdvancedSecurity_def junkPacketCheck_def
          magicHeaderCheck_def h)
qed

lemma specialJunkCheck_frame:
  assumes "specialJunkCheck fld s = (s', e)"
  shows "s' = s\<lparr>FirstSpecialJunkPacket := FirstSpecialJunkPacket s',
                  SecondSpecialJunkPacket := SecondSpecialJunkPacket s',
                  ThirdSpecialJunkPacket := ThirdSpecialJunkPacket s',
                  FourthSpecialJunkPacket := FourthSpecialJunkPacket s',
                  FifthSpecialJunkPacket := FifthSpecialJunkPacket s'\<rparr>"
    and "list_all (\<lambda>f. f s' = f s \<or> f s' = map_option TrimSpace (f s))
           [FirstSpecialJunkPacket, SecondSpecialJunkPacket, ThirdSpecialJunkPacket,
            FourthSpecialJunkPacket, FifthSpecialJunkPacket]"
    and "e = None \<Longrightarrow> list_all (\<lambda>f. f s' = map_option TrimSpace (f s))
           [FirstSpecialJunkPacket, SecondSpecialJunkPacket, ThirdSpecialJunkPacket,
            FourthSpecialJunkPacket, FifthSpecialJunkPacket]"
proof -
  obtain p1 e1 where v1: "validateAwgStringPtr (fld @ ''.first_special_junk_packet (i1)'') (FirstSpecialJunkPacket s) = (p1, e1)"
    by (cases "validateAwgStringPtr (fld @ ''.first_special_junk_packet (i1)'') (FirstSpecialJunkPacket s)")
  obtain p2 e2 where v2: "validateAwgStringPtr (fld @ ''.second_special_junk_packet (i2)'') (SecondSpecialJunkPacket s) = (p2, e2)"
    by (cases "validateAwgStringPtr (fld @ ''.second_special_junk_packet (i2)'') (SecondSpecialJunkPacket s)")
  obtain p3 e3 where v3: "validateAwgStringPtr (fld @ ''.third_special_junk_packet (i3)'') (ThirdSpecialJunkPacket s) = (p3, e3)"
    by (cases "validateAwgStringPtr (fld @ ''.third_special_junk_packet (i3)'') (ThirdSpecialJunkPacket s)")
  obtain p4 e4 where v4: "validateAwgStringPtr (fld @ ''.fourth_special_junk_packet (i4)'') (FourthSpecialJunkPacket s) = (p4, e4)"
    by (cases "validateAwgStringPtr (fld @ ''.fourth_special_junk_packet (i4)'') (FourthSpecialJunkPacket s)")
  obtain p5 e5 where v5: "validateAwgStringPtr (fld @ ''.fifth_special_junk_packet (i5)'') (FifthSpecialJunkPacket s) = (p5, e5)"
    by (cases "validateAwgStringPtr (fld @ ''.fifth_special_junk_packet (i5)'') (FifthSpecialJunkPacket s)")
  note vals = validateAwgStringPtr_value[OF v1] validateAwgStringPtr_value[OF v2]
    validateAwgStringPtr_value[OF v3] validateAwgStringPtr_value[OF v4]
    validateAwgStringPtr_value[OF v5]
  from assms have r: "(s', e) =
      (if e1 \<noteq> None then (s\<lparr>FirstSpecialJunkPacket := p1\<rparr>, e1)
       else if e2 \<noteq> None then (s\<lparr>FirstSpecialJunkPacket := p1, SecondSpecialJunkPacket := p2\<rparr>, e2)
       else if e3 \<noteq> None then
         (s\<lparr>FirstSpecialJunkPacket := p1, SecondSpecialJunkPacket := p2,
            ThirdSpecialJunkPacket := p3\<rparr>, e3)
       else if e4 \<noteq> None then
         (s\<lparr>FirstSpecialJunkPacket := p1, SecondSpecialJunkPacket := p2,
            ThirdSpecialJunkPacket := p3, FourthSpecialJunkPacket := p4\<rparr>, e4)
       else (s\<lparr>FirstSpecialJunkPacket := p1, SecondSpecialJunkPacket := p2,
               ThirdSpecialJunkPacket := p3, FourthSpecialJunkPacket := p4,
               FifthSpecialJunkPacket := p5\<rparr>, e5))"
    unfolding specialJunkCheck_def v1 v2 v3 v4 v5 by (auto split: option.splits)
  show "s' = s\<lparr>FirstSpecialJunkPacket := FirstSpecialJunkPacket s',
                  SecondSpecialJunkPacket := SecondSpecialJunkPacket s',
                  ThirdSpecialJunkPacket := ThirdSpecialJunkPacket s',
                  FourthSpecialJunkPacket := FourthSpecialJunkPacket s',
                  FifthSpecialJunkPacket := FifthSpecialJunkPacket s'\<rparr>"
    using r by (auto split: if_splits)
  show "list_all (\<lambda>f. f s' = f s \<or> f s' = map_option TrimSpace (f s))
           [FirstSpecialJunkPacket, SecondSpecialJunkPacket, ThirdSpecialJunkPacket,
            FourthSpecialJunkPacket, FifthSpecialJunkPacket]"
    using r vals by (auto split: if_splits)
  show "list_all (\<lambda>f. f s' = map_option TrimSpace (f s))
           [FirstSpecialJunkPacket, SecondSpecialJunkPacket, ThirdSpecialJunkPacket,
            FourthSpecialJunkPacket, FifthSpecialJunkPacket]" if "e = None"
    using r vals that by (auto split: if_splits)
qed


lemma validateAdvancedSecurity_cases:
  "validateAdvancedSecurity fld s = (s', ws, e) \<Longrightarrow>
     (s' = s \<and> e \<noteq> None) \<or> specialJunkCheck fld s = (s', e)"
  by (auto simp: validateAdvancedSecurity_def split: prod.splits option.splits)

text \<open>
  Claim C8, as amended. Validation of a block changes nothing but the five special
  junk packets: all other fields, the magic headers among them, hold afterwards what
  they held before. Each special junk packet holds afterwards either its value or its
  value trimmed of surrounding white space; when validation succeeds, each that is set
  holds its trimmed value.
\<close>

theorem validateAdvancedSecurity_frame:
  "validateAdvancedSecurity fld s = (s', ws, e) \<longrightarrow>
     s' = s\<lparr>FirstSpecialJunkPacket := FirstSpecialJunkPacket s',
              SecondSpecialJunkPacket := SecondSpecialJunkPacket s',
              ThirdSpecialJunkPacket := ThirdSpecialJunkPacket s',
              FourthSpecialJunkPacket := FourthSpecialJunkPacket s',
              FifthSpecialJunkPacket := FifthSpecialJunkPacket s'\<rparr>
     \<and> list_all (\<lambda>f. f s' = f s \<or> f s' = map_option TrimSpace (f s))
           [FirstSpecialJunkPacket, SecondSpecialJunkPacket, ThirdSpecialJunkPacket,
            FourthSpecialJunkPacket, FifthSpecialJunkPacket]
     \<and> (e = None \<longrightarrow> list_all (\<lambda>f. f s' = map_option TrimSpace (f s))
           [FirstSpecialJunkPacket, SecondSpecialJunkPacket, ThirdSpecialJunkPacket,
            FourthSpecialJunkPacket, FifthSpecialJunkPacket])
     \<and> InitPacketMagicHeader s' = InitPacketMagicHeader s
     \<and> ResponsePacketMagicHeader s' = ResponsePacketMagicHeader s
     \<and> UnderloadPacketMagicHeader s' = UnderloadPacketMagicHeader s
     \<and> TransportPacketMagicHeader s' = TransportPacketMagicHeader s"
proof
  assume v: "validateAdvancedSecurity fld s = (s', ws, e)"
  have eq: "s' = s\<lparr>FirstSpecialJunkPacket := FirstSpecialJunkPacket s',
              SecondSpecialJunkPacket := SecondSpecialJunkPacket s',
              ThirdSpecialJunkPacket := ThirdSpecialJunkPacket s',
              FourthSpecialJunkPacket := FourthSpecialJunkPacket s',
              FifthSpecialJunkPacket := FifthSpecialJunkPacket s'\<rparr>"
    using validateAdvancedSecurity_cases[OF v] specialJunkCheck_frame(1)[of fld s s' e] by auto
  have some: "list_all (\<lambda>f. f s' = f s \<or> f s' = map_option TrimSpace (f s))
           [FirstSpecialJunkPacket, SecondSpecialJunkPacket, ThirdSpecialJunkPacket,
            FourthSpecialJunkPacket, FifthSpecialJunkPacket]"
    using validateAdvancedSecurity_cases[OF v] specialJunkCheck_frame(2)[of fld s s' e] by auto
  have ok: "list_all (\<lambda>f. f s' = map_option TrimSpace (f s))
           [FirstSpecialJunkPacket, SecondSpecialJunkPacket, ThirdSpecialJunkPacket,
            FourthSpecialJunkPacket, FifthSpecialJunkPacket]" if "e = None"
    using validateAdvancedSecurity_cases[OF v] specialJunkCheck_frame(3)[of fld s s' e] that by auto
  have h: "InitPacketMagicHeader s' = InitPacketMagicHeader s"
      "ResponsePacketMagicHeader s' = ResponsePacketMagicHeader s"
      "UnderloadPacketMagicHeader s' = UnderloadPacketMagicHeader s"
      "TransportPacketMagicHeader s' = TransportPacketMagicHeader s"
    by (subst eq, simp)+
  from eq some ok h
  show "s' = s\<lparr>FirstSpecialJunkPacket := FirstSpecialJunkPacket s',
              SecondSpecialJunkPacket := SecondSpecialJunkPacket s',
              ThirdSpecialJunkPacket := ThirdSpecialJunkPacket s',
              FourthSpecialJunkPacket := FourthSpecialJunkPacket s',
              FifthSpecialJunkPacket := FifthSpecialJunkPacket s'\<rparr>
     \<and> list_all (\<lambda>f. f s' = f s \<or> f s' = map_option TrimSpace (f s))
           [FirstSpecialJunkPacket, SecondSpecialJunkPacket, ThirdSpecialJunkPacket,
            FourthSpecialJunkPacket, FifthSpecialJunkPacket]
     \<and> (e = None \<longrightarrow> list_all (\<lambda>f. f s' = map_option TrimSpace (f s))
           [FirstSpecialJunkPacket, SecondSpecialJunkPacket, ThirdSpecialJunkPacket,
            FourthSpecialJunkPacket, FifthSpecialJunkPacket])
     \<and> InitPacketMagicHeader s' = InitPacketMagicHeader s
     \<and> ResponsePacketMagicHeader s' = ResponsePacketMagicHeader s
     \<and> UnderloadPacketMagicHeader s' = UnderloadPacketMagicHeader s
     \<and> TransportPacketMagicHeader s' = TransportPacketMagicHeader s"
    by blast
qed

theorem validateAdvancedSecurity_frame_witness:
  "validateAdvancedSecurity ''f'' exampleBlock
     = (exampleBlock\<lparr>FirstSpecialJunkPacket := Some ''<b 0xff>''\<rparr>, [], None)
   \<and> InitPacketMagicHeader (exampleBlock\<lparr>FirstSpecialJunkPacket := Some ''<b 0xff>''\<rparr>)
       = InitPacketMagicHeader exampleBlock
   \<and> list_all (\<lambda>f. f (exampleBlock\<lparr>FirstSpecialJunkPacket := Some ''<b 0xff>''\<rparr>)
                    = map_option TrimSpace (f exampleBlock))
           [FirstSpecialJunkPacket, SecondSpecialJunkPacket, ThirdSpecialJunkPacket,
            FourthSpecialJunkPacket, FifthSpecialJunkPacket]"
proof -
  have v: "validateAdvancedSecurity ''f'' exampleBlock
     = (exampleBlock\<lparr>FirstSpecialJunkPacket := Some ''<b 0xff>''\<rparr>, [], None)"
    by code_simp
  from validateAdvancedSecurity_frame
    [of "''f''" exampleBlock "exampleBlock\<lparr>FirstSpecialJunkPacket := Some ''<b 0xff>''\<rparr>" "[]" None] v
  have "InitPacketMagicHeader (exampleBlock\<lparr>FirstSpecialJunkPacket := Some ''<b 0xff>''\<rparr>)
       = InitPacketMagicHeader exampleBlock"
    and "list_all (\<lambda>f. f (exampleBlock\<lparr>FirstSpecialJunkPacket := Some ''<b 0xff>''\<rparr>)
                    = map_option TrimSpace (f exampleBlock))
           [FirstSpecialJunkPacket, SecondSpecialJunkPacket, ThirdSpecialJunkPacket,
            FourthSpecialJunkPacket, FifthSpecialJunkPacket]"
    by blast+
  with v show ?thesis by blast
qed

text \<open>
  Claim C8 as stated fails: validation of a block whose first special junk packet is
  \<open>" <b 0xff> "\<close> succeeds and leaves \<open>"<b 0xff>"\<close> in the field.
\<close>

theorem validateAdvancedSecurity_trims_counterexample:
  "FirstSpecialJunkPacket exampleBlock = Some '' <b 0xff> ''
   \<and> snd (snd (validateAdvancedSecurity ''f'' exampleBlock)) = None
   \<and> FirstSpecialJunkPacket (fst (validateAdvancedSecurity ''f'' exampleBlock)) = Some ''<b 0xff>''"
  by code_simp


section \<open>Validation of the provisioning spec\<close>





lemma sanitizeSettings_unsupported:
  assumes "AdvancedSecurity iface \<noteq> None" and "wgMode \<noteq> WireGuardModeAmneziaWG"
  shows "snd (snd (sanitizeSettings ParsePrefix wgMode ident iface)) \<noteq> None"
  using assms unfolding sanitizeSettings_def
  by (auto split: if_splits option.splits prod.splits)

lemma sanitizeInterface_pass:
  assumes "TrimSpace (Identifier iface) \<noteq> []" and "TrimSpace (Identifier iface) \<notin> seen"
    and "ToLower (TrimSpace (Mode iface)) \<in> {''server'', ''client'', ''any'', []}"
  shows "sanitizeInterface ToLower ParsePrefix wgMode idx seen iface =
     (case sanitizeSettings ParsePrefix wgMode (TrimSpace (Identifier iface)) (settled ToLower iface) of
        (iface2, ws, e) \<Rightarrow> (iface2, insert (TrimSpace (Identifier iface)) seen, ws, e))"
  using assms by (auto simp: sanitizeInterface_def settled_def Let_def split: prod.splits)


lemma firstIdModeViolation_fail:
  assumes "TrimSpace (Identifier iface) = [] \<or> TrimSpace (Identifier iface) \<in> seen
         \<or> ToLower (TrimSpace (Mode iface)) \<notin> {''server'', ''client'', ''any'', []}"
  shows "\<exists>e. firstIdModeViolation ToLower idx seen (iface # ifaces) = Some e
           \<and> snd (snd (snd (sanitizeInterface ToLower ParsePrefix wgMode idx seen iface))) = Some e"
  using assms by (auto simp: sanitizeInterface_def Let_def)

lemma sanitizeLoop_step_error:
  "snd (snd (snd (sanitizeInterface ToLower ParsePrefix wgMode (length passed) seen iface))) = Some e \<Longrightarrow>
     snd (snd (sanitizeLoop ToLower ParsePrefix wgMode seen passed log (iface # ifaces))) = Some e"
  by (cases "sanitizeInterface ToLower ParsePrefix wgMode (length passed) seen iface") auto

lemma sanitizeLoop_step_ok:
  "sanitizeInterface ToLower ParsePrefix wgMode (length passed) seen iface = (iface', seen', ws, None) \<Longrightarrow>
     sanitizeLoop ToLower ParsePrefix wgMode seen passed log (iface # ifaces)
       = sanitizeLoop ToLower ParsePrefix wgMode seen' (passed @ [iface']) (log @ ws) ifaces"
  by simp


lemma sanitizeLoop_unsupported:
  "list_ex (\<lambda>iface. AdvancedSecurity iface \<noteq> None) ifaces \<Longrightarrow> wgMode \<noteq> WireGuardModeAmneziaWG \<Longrightarrow>
     snd (snd (sanitizeLoop ToLower ParsePrefix wgMode seen passed log ifaces)) \<noteq> None"
proof (induction ifaces arbitrary: seen passed log)
  case Nil
  then show ?case by simp
next
  case (Cons iface ifaces)
  let ?ident = "TrimSpace (Identifier iface)"
  let ?step = "sanitizeInterface ToLower ParsePrefix wgMode (length passed) seen iface"
  show ?case
  proof (cases "?ident = [] \<or> ?ident \<in> seen
         \<or> ToLower (TrimSpace (Mode iface)) \<notin> {''server'', ''client'', ''any'', []}")
    case True
    from firstIdModeViolation_fail[where iface=iface and seen=seen and ToLower=ToLower
        and idx="length passed" and ifaces=ifaces and ParsePrefix=ParsePrefix and wgMode=wgMode, OF True]
    obtain e where s: "snd (snd (snd ?step)) = Some e" by blast
    from sanitizeLoop_step_error[OF s, of log ifaces] show ?thesis by simp
  next
    case False
    then have p: "?ident \<noteq> []" "?ident \<notin> seen"
      "ToLower (TrimSpace (Mode iface)) \<in> {''server'', ''client'', ''any'', []}" by auto
    obtain iface2 ws e2 where st: "sanitizeSettings ParsePrefix wgMode ?ident (settled ToLower iface) = (iface2, ws, e2)"
      by (cases "sanitizeSettings ParsePrefix wgMode ?ident (settled ToLower iface)")
    then have step: "?step = (iface2, insert ?ident seen, ws, e2)"
      by (simp add: sanitizeInterface_pass[where iface=iface and seen=seen and ToLower=ToLower, OF p])
    show ?thesis
    proof (cases e2)
      case (Some e')
      with step have "snd (snd (snd ?step)) = Some e'" by simp
      from sanitizeLoop_step_error[OF this, of log ifaces] show ?thesis by simp
    next
      case None
      have "AdvancedSecurity iface = None"
      proof (rule ccontr)
        assume "AdvancedSecurity iface \<noteq> None"
        then have "AdvancedSecurity (settled ToLower iface) \<noteq> None" by (simp add: settled_def)
        from sanitizeSettings_unsupported[OF this Cons.prems(2), of ParsePrefix ?ident] st None
        show False by simp
      qed
      with Cons.prems(1) have tl: "list_ex (\<lambda>iface. AdvancedSecurity iface \<noteq> None) ifaces" by simp
      from step None have l: "sanitizeLoop ToLower ParsePrefix wgMode seen passed log (iface # ifaces)
          = sanitizeLoop ToLower ParsePrefix wgMode (insert ?ident seen) (passed @ [iface2]) (log @ ws) ifaces"
        by (simp add: sanitizeLoop_step_ok)
      show ?thesis unfolding l by (rule Cons.IH[OF tl Cons.prems(2)])
    qed
  qed
qed

















lemma sanitizeProvisioningInterfaces_unsupported:
  assumes "list_ex (\<lambda>iface. AdvancedSecurity iface \<noteq> None) (Interfaces c)"
    and "WireGuardMode c \<noteq> WireGuardModeAmneziaWG"
  shows "snd (snd (sanitizeProvisioningInterfaces ToLower ParsePrefix c)) \<noteq> None"
proof -
  from assms(1) have ne: "Interfaces c \<noteq> []" by auto
  have "snd (snd (sanitizeProvisioningInterfaces ToLower ParsePrefix c))
      = snd (snd (sanitizeLoop ToLower ParsePrefix (WireGuardMode c) {} [] [] (Interfaces c)))"
    using ne by (simp add: sanitizeProvisioningInterfaces_def split: prod.splits)
  with sanitizeLoop_unsupported[OF assms, of ToLower ParsePrefix "{}" "[]" "[]"] show ?thesis by simp
qed

text \<open>
  Claim C9. \<^verbatim>\<open>sanitizeProvisioningInterfaces\<close> returns an error for every configuration
  in which some provisioning interface has an AdvancedSecurity block while the
  WireGuard mode is not \<open>amneziawg\<close>; so does \<^verbatim>\<open>Sanitize\<close>, which compares the mode after
  lower-casing and trimming it.
\<close>

theorem advanced_security_requires_amneziawg:
  "(list_ex (\<lambda>iface. AdvancedSecurity iface \<noteq> None) (Interfaces c)
      \<and> WireGuardMode c \<noteq> WireGuardModeAmneziaWG
      \<longrightarrow> snd (snd (sanitizeProvisioningInterfaces ToLower ParsePrefix c)) \<noteq> None)
   \<and> (list_ex (\<lambda>iface. AdvancedSecurity iface \<noteq> None) (Interfaces c)
      \<and> TrimSpace (ToLower (WireGuardMode c)) \<noteq> WireGuardModeAmneziaWG
      \<longrightarrow> snd (snd (Sanitize ToLower ParsePrefix c)) \<noteq> None)"
proof (intro conjI impI)
  assume "list_ex (\<lambda>iface. AdvancedSecurity iface \<noteq> None) (Interfaces c)
      \<and> WireGuardMode c \<noteq> WireGuardModeAmneziaWG"
  then show "snd (snd (sanitizeProvisioningInterfaces ToLower ParsePrefix c)) \<noteq> None"
    using sanitizeProvisioningInterfaces_unsupported[of c ToLower ParsePrefix] by blast
next
  assume a: "list_ex (\<lambda>iface. AdvancedSecurity iface \<noteq> None) (Interfaces c)
      \<and> TrimSpace (ToLower (WireGuardMode c)) \<noteq> WireGuardModeAmneziaWG"
  let ?m = "TrimSpace (ToLower (WireGuardMode c))"
  let ?c = "c\<lparr>WireGuardMode := (if ?m = [] then WireGuardModeDisabled else ?m)\<rparr>"
  have m: "WireGuardMode ?c \<noteq> WireGuardModeAmneziaWG"
    using a by (simp add: WireGuardModeDisabled_def WireGuardModeAmneziaWG_def)
  have i: "list_ex (\<lambda>iface. AdvancedSecurity iface \<noteq> None) (Interfaces ?c)" using a by simp
  from sanitizeProvisioningInterfaces_unsupported[OF i m, of ToLower ParsePrefix]
  show "snd (snd (Sanitize ToLower ParsePrefix c)) \<noteq> None"
    by (simp add: Sanitize_def Let_def)
qed

theorem advanced_security_requires_amneziawg_witness:
  "list_ex (\<lambda>iface. AdvancedSecurity iface \<noteq> None)
      (Interfaces \<lparr>WireGuardMode = ''wireguard'',
                   Interfaces = [exampleInterface\<lparr>AdvancedSecurity := Some exampleBlock\<rparr>]\<rparr>)
   \<and> WireGuardMode \<lparr>WireGuardMode = ''wireguard'',
                   Interfaces = [exampleInterface\<lparr>AdvancedSecurity := Some exampleBlock\<rparr>]\<rparr>
       \<noteq> WireGuardModeAmneziaWG
   \<and> snd (snd (sanitizeProvisioningInterfaces asciiLower (\<lambda>p. True)
         \<lparr>WireGuardMode = ''wireguard'',
          Interfaces = [exampleInterface\<lparr>AdvancedSecurity := Some exampleBlock\<rparr>]\<rparr>)) \<noteq> None
   \<and> snd (snd (Sanitize asciiLower (\<lambda>p. True)
         \<lparr>WireGuardMode = ''wireguard'',
          Interfaces = [exampleInterface\<lparr>AdvancedSecurity := Some exampleBlock\<rparr>]\<rparr>))
       = Some (AdvancedSecurityUnsupported ''wg0'')
   \<and> snd (snd (Sanitize asciiLower (\<lambda>p. True)
         \<lparr>WireGuardMode = '' AmneziaWG '',
          Interfaces = [exampleInterface\<lparr>AdvancedSecurity := Some exampleBlock\<rparr>]\<rparr>))
       = None"
proof -
  let ?c = "\<lparr>WireGuardMode = ''wireguard'',
          Interfaces = [exampleInterface\<lparr>AdvancedSecurity := Some exampleBlock\<rparr>]\<rparr>"
  have a: "list_ex (\<lambda>iface. AdvancedSecurity iface \<noteq> None) (Interfaces ?c)" by simp
  have b: "WireGuardMode ?c \<noteq> WireGuardModeAmneziaWG" by (simp add: WireGuardModeAmneziaWG_def)
  from advanced_security_requires_amneziawg[of ?c asciiLower "\<lambda>p. True"] a b
  have c: "snd (snd (sanitizeProvisioningInterfaces asciiLower (\<lambda>p. True) ?c)) \<noteq> None" by blast
  have d: "snd (snd (Sanitize asciiLower (\<lambda>p. True) ?c)) = Some (AdvancedSecurityUnsupported ''wg0'')"
    by code_simp
  have e: "snd (snd (Sanitize asciiLower (\<lambda>p. True)
         \<lparr>WireGuardMode = '' AmneziaWG '',
          Interfaces = [exampleInterface\<lparr>AdvancedSecurity := Some exampleBlock\<rparr>]\<rparr>))
       = None"
    by code_simp
  show ?thesis by (intro conjI a b c d e)
qed


end
